theory Spec2Isabelle
  imports Main
begin

section \<open>JavaScript values\<close>

text \<open>
  The page script works on the untyped tree that \<^verbatim>\<open>response.json()\<close> returns. A value is
  one of the JSON kinds, or \<^verbatim>\<open>undefined\<close> (what reading a missing property gives), or a
  built-in method (what reading \<^verbatim>\<open>entries\<close> of an array gives). Numbers are the integers:
  fractions, and integers beyond \<open>2^53\<close> where a double stops being exact, are outside the
  model. A string is the list of its code units, each below 256 (Latin-1). An object is
  the list of its properties, each key once.
\<close>

datatype jsval =
    JUndefined
  | JNull
  | JBool bool
  | JNum int
  | JStr string
  | JArr "jsval list"
  | JObj "(string \<times> jsval) list"
  | JFun string

datatype js_error =
    FetchDataError string string "nat option"
  | TypeError
  | QuotaExceededError

text \<open>Truthiness, as \<^verbatim>\<open>if (x)\<close>, \<^verbatim>\<open>!x\<close>, \<^verbatim>\<open>x && y\<close> and \<^verbatim>\<open>x || y\<close> test it.\<close>

fun truthy :: "jsval \<Rightarrow> bool" where
  "truthy JUndefined = False"
| "truthy JNull = False"
| "truthy (JBool b) = b"
| "truthy (JNum n) = (n \<noteq> 0)"
| "truthy (JStr s) = (s \<noteq> [])"
| "truthy (JArr xs) = True"
| "truthy (JObj kvs) = True"
| "truthy (JFun n) = True"

definition orElse :: "jsval \<Rightarrow> jsval \<Rightarrow> jsval" where
  "orElse a b = (if truthy a then a else b)"

fun typeof :: "jsval \<Rightarrow> string" where
  "typeof JUndefined = ''undefined''"
| "typeof JNull = ''object''"
| "typeof (JBool b) = ''boolean''"
| "typeof (JNum n) = ''number''"
| "typeof (JStr s) = ''string''"
| "typeof (JArr xs) = ''object''"
| "typeof (JObj kvs) = ''object''"
| "typeof (JFun n) = ''function''"

fun isArray :: "jsval \<Rightarrow> bool" where
  "isArray (JArr xs) = True"
| "isArray v = False"

fun elems :: "jsval \<Rightarrow> jsval list" where
  "elems (JArr xs) = xs"
| "elems v = []"

text \<open>
  \<open>member v k\<close> is the read \<^verbatim>\<open>v.k\<close> on a value that is neither \<^verbatim>\<open>null\<close> nor
  \<^verbatim>\<open>undefined\<close>, for the property names the script reads (\<^verbatim>\<open>children\<close>,
  \<^verbatim>\<open>standings\<close>, \<^verbatim>\<open>entries\<close>, \<^verbatim>\<open>team\<close>, \<^verbatim>\<open>id\<close>, \<^verbatim>\<open>record\<close>, \<^verbatim>\<open>items\<close>,
  \<^verbatim>\<open>records\<close>, \<^verbatim>\<open>type\<close>, \<^verbatim>\<open>description\<close>, \<^verbatim>\<open>name\<close>, \<^verbatim>\<open>summary\<close>, \<^verbatim>\<open>stats\<close>,
  \<^verbatim>\<open>abbreviation\<close>, \<^verbatim>\<open>value\<close>, \<^verbatim>\<open>events\<close>, \<^verbatim>\<open>date\<close>, \<^verbatim>\<open>competitions\<close>,
  \<^verbatim>\<open>competitors\<close>, \<^verbatim>\<open>length\<close>, \<^verbatim>\<open>homeAway\<close>, \<^verbatim>\<open>displayName\<close>, \<^verbatim>\<open>logo\<close>,
  \<^verbatim>\<open>score\<close>, \<^verbatim>\<open>status\<close>, \<^verbatim>\<open>completed\<close>, \<^verbatim>\<open>podcasts\<close>, \<^verbatim>\<open>title\<close>, \<^verbatim>\<open>src\<close>).
  An object gives the value it holds under the key; of these names an array has only
  \<^verbatim>\<open>length\<close> and the method \<^verbatim>\<open>entries\<close>, a string only \<^verbatim>\<open>length\<close>, a function
  \<^verbatim>\<open>length\<close> and \<^verbatim>\<open>name\<close>, a number or a boolean none. \<open>getMember\<close> is the read on any
  value: on \<^verbatim>\<open>null\<close> and \<^verbatim>\<open>undefined\<close> it throws a TypeError.
\<close>

fun member :: "jsval \<Rightarrow> string \<Rightarrow> jsval" where
  "member (JObj kvs) k = (case map_of kvs k of Some v \<Rightarrow> v | None \<Rightarrow> JUndefined)"
| "member (JArr xs) k =
     (if k = ''length'' then JNum (int (length xs))
      else if k = ''entries'' then JFun ''entries'' else JUndefined)"
| "member (JStr s) k = (if k = ''length'' then JNum (int (length s)) else JUndefined)"
| "member (JFun n) k =
     (if k = ''length'' then JNum 0 else if k = ''name'' then JStr n else JUndefined)"
| "member v k = JUndefined"

definition nullish :: "jsval \<Rightarrow> bool" where
  "nullish v = (v = JNull \<or> v = JUndefined)"

definition getMember :: "jsval \<Rightarrow> string \<Rightarrow> js_error + jsval" where
  "getMember v k = (if nullish v then Inl TypeError else Inr (member v k))"

text \<open>\<open>andMember v k\<close> is \<^verbatim>\<open>v && v.k\<close>: a truthy value is never nullish, so the read
  cannot throw.\<close>

definition andMember :: "jsval \<Rightarrow> string \<Rightarrow> jsval" where
  "andMember v k = (if truthy v then member v k else v)"

subsection \<open>Strings\<close>

text \<open>White space as \<^verbatim>\<open>String.prototype.trim\<close> and \<^verbatim>\<open>parseInt\<close> skip it: tab, line feed,
  vertical tab, form feed, carriage return, space and no-break space (the white space and
  line terminators among the code units below 256).\<close>

definition isWhiteSpace :: "char \<Rightarrow> bool" where
  "isWhiteSpace c = (c \<in> set [CHR 0x09, CHR 0x0A, CHR 0x0B, CHR 0x0C, CHR 0x0D, CHR 0x20, CHR 0xA0])"

definition trim :: "string \<Rightarrow> string" where
  "trim s = rev (dropWhile isWhiteSpace (rev (dropWhile isWhiteSpace s)))"

fun startsWith :: "string \<Rightarrow> string \<Rightarrow> bool" where
  "startsWith s [] = True"
| "startsWith [] (p # ps) = False"
| "startsWith (c # cs) (p # ps) = (c = p \<and> startsWith cs ps)"

fun str_includes :: "string \<Rightarrow> string \<Rightarrow> bool" where
  "str_includes [] p = (p = [])"
| "str_includes (c # cs) p = (if startsWith (c # cs) p then True else str_includes cs p)"

text \<open>The decimal digit of a number below ten.\<close>

definition digitChar :: "nat \<Rightarrow> char" where
  "digitChar d = ''0123456789'' ! d"

fun digits :: "nat \<Rightarrow> string" where
  "digits n = (if n < 10 then [digitChar n] else digits (n div 10) @ [digitChar (n mod 10)])"

text \<open>Number to string, as a template literal renders an integer (below \<open>10^21\<close>).\<close>

definition numberToString :: "int \<Rightarrow> string" where
  "numberToString i = (if i < 0 then CHR ''-'' # digits (nat (- i)) else digits (nat i))"

fun join :: "string \<Rightarrow> string list \<Rightarrow> string" where
  "join sep [] = []"
| "join sep [x] = x"
| "join sep (x # y # ys) = x @ sep @ join sep (y # ys)"

text \<open>\<open>toString v\<close> is what \<^verbatim>\<open>${v}\<close> puts into a template literal, for a value that
  converts to a string (see \<open>convertible\<close> below).\<close>

fun toString :: "jsval \<Rightarrow> string" where
  "toString JUndefined = ''undefined''"
| "toString JNull = ''null''"
| "toString (JBool b) = (if b then ''true'' else ''false'')"
| "toString (JNum n) = numberToString n"
| "toString (JStr s) = s"
| "toString (JArr xs) =
     join '','' (map (\<lambda>x. if x = JNull then [] else if x = JUndefined then [] else toString x) xs)"
| "toString (JObj kvs) = ''[object Object]''"
| "toString (JFun n) = ''function '' @ n @ ''() { [native code] }''"

text \<open>
  A template literal converts each value it interpolates to a string. The conversion of
  an object asks the object for \<^verbatim>\<open>toString\<close>, then for \<^verbatim>\<open>valueOf\<close>: an object that
  holds a property named \<^verbatim>\<open>toString\<close> hides the built-in method behind a value that
  cannot be called, \<^verbatim>\<open>valueOf\<close> gives the object back, and the conversion throws a
  TypeError. An array converts through its elements.
\<close>

fun convertible :: "jsval \<Rightarrow> bool" where
  "convertible (JObj kvs) = (map_of kvs ''toString'' = None)"
| "convertible (JArr xs) = list_all convertible xs"
| "convertible v = True"

text \<open>A template literal: its pieces, literal text and interpolated values, and the
  string it evaluates to, or the error of the first value that does not convert.\<close>

datatype piece = Lit string | Sub jsval

fun template :: "piece list \<Rightarrow> js_error + string" where
  "template [] = Inr []"
| "template (Lit s # ps) = (case template ps of Inl e \<Rightarrow> Inl e | Inr r \<Rightarrow> Inr (s @ r))"
| "template (Sub v # ps) =
     (if convertible v
      then (case template ps of Inl e \<Rightarrow> Inl e | Inr r \<Rightarrow> Inr (toString v @ r))
      else Inl TypeError)"

text \<open>The text of a piece whose value converts.\<close>

fun pieceText :: "piece \<Rightarrow> string" where
  "pieceText (Lit s) = s"
| "pieceText (Sub v) = toString v"

fun converts :: "piece \<Rightarrow> bool" where
  "converts (Lit s) = True"
| "converts (Sub v) = convertible v"

text \<open>A value in which no object holds a property named \<^verbatim>\<open>toString\<close>: every value
  read from it converts.\<close>

fun plain :: "jsval \<Rightarrow> bool" where
  "plain (JObj kvs) = (map_of kvs ''toString'' = None \<and> list_all plain (map snd kvs))"
| "plain (JArr xs) = list_all plain xs"
| "plain v = True"

definition bindE :: "'e + 'a \<Rightarrow> ('a \<Rightarrow> 'e + 'b) \<Rightarrow> 'e + 'b" where
  "bindE r g = (case r of Inl e \<Rightarrow> Inl e | Inr x \<Rightarrow> g x)"

section \<open>The fetch, cache and render engine\<close>

text \<open>
  The display element found by \<^verbatim>\<open>document.getElementById(elementId)\<close>, as
  \<^verbatim>\<open>fetchDataAndDisplay\<close> sees it: its \<^verbatim>\<open>.loader\<close> child (absent, or present with the
  class \<^verbatim>\<open>hidden\<close> set or not), its \<^verbatim>\<open>.error-message\<close> child (absent, or its text and
  whether it is hidden), whether it has a \<^verbatim>\<open>.data-content\<close> child, and the
  \<^verbatim>\<open>innerHTML\<close> of the content area (the \<^verbatim>\<open>.data-content\<close> child, or else the element
  itself). The loader and the error message are those the function found when it
  started; \<open>None\<close> also stands for one that a write to the section has since removed.
\<close>

record element =
  loaderHidden :: "bool option"
  errorMessageElement :: "(string \<times> bool) option"
  hasDataContent :: bool
  contentHTML :: string

text \<open>The browser: the document, the local storage, and the URLs fetched so far.\<close>

record browser =
  document :: "string \<rightharpoonup> element"
  localStorage :: "string \<rightharpoonup> string"
  fetched :: "string list"

text \<open>What the network does with a request: the promise of \<^verbatim>\<open>fetch\<close> rejects, never
  settles, or resolves to a response. \<open>jsonBody\<close> is \<open>None\<close> when \<^verbatim>\<open>response.json()\<close>
  rejects.\<close>

record response =
  ok :: bool
  status :: nat
  statusText :: string
  contentType :: "string option"
  jsonBody :: "jsval option"

datatype fetch_outcome = Rejected | Pending | Resolved response

datatype completion = Returned | Thrown js_error

definition showLoader :: "element \<Rightarrow> element" where
  "showLoader el = el\<lparr>loaderHidden := map_option (\<lambda>h. False) (loaderHidden el)\<rparr>"

definition hideLoader :: "element \<Rightarrow> element" where
  "hideLoader el = el\<lparr>loaderHidden := map_option (\<lambda>h. True) (loaderHidden el)\<rparr>"

definition hideError :: "element \<Rightarrow> element" where
  "hideError el =
     el\<lparr>errorMessageElement := map_option (\<lambda>(t, h). (t, True)) (errorMessageElement el)\<rparr>"

text \<open>\<^verbatim>\<open>contentArea.innerHTML = html\<close>. When the section has no \<^verbatim>\<open>.data-content\<close> child
  the content area is the section itself, and the write replaces its children: the
  loader and the error message the function still refers to are no longer in the
  document.\<close>

definition setContent :: "string \<Rightarrow> element \<Rightarrow> element" where
  "setContent html el =
     (if hasDataContent el then el\<lparr>contentHTML := html\<rparr>
      else el\<lparr>loaderHidden := None, errorMessageElement := None, contentHTML := html\<rparr>)"

definition clearContent :: "element \<Rightarrow> element" where
  "clearContent el = (if hasDataContent el then setContent [] el else el)"

text \<open>\<^verbatim>\<open>showError(message)\<close>. \<open>hasErrorElement\<close> says that the function found an
  \<^verbatim>\<open>.error-message\<close> child when it started; its writes to that element show only while
  the element is still in the document.\<close>

definition showError :: "bool \<Rightarrow> string \<Rightarrow> element \<Rightarrow> element" where
  "showError hasErrorElement message el =
     (if hasErrorElement then
        (let el1 = el\<lparr>errorMessageElement :=
                        map_option (\<lambda>e. (message, False)) (errorMessageElement el)\<rparr>
         in if hasDataContent el then setContent [] el1 else el1)
      else setContent (''<p>'' @ message @ ''</p>'') el)"

text \<open>The network part of the \<^verbatim>\<open>try\<close> block: \<open>None\<close> when the request never settles,
  otherwise the parsed JSON or the classified error thrown.\<close>

definition retrieve :: "fetch_outcome \<Rightarrow> (js_error + jsval) option" where
  "retrieve r =
     (case r of
        Pending \<Rightarrow> None
      | Rejected \<Rightarrow>
          Some (Inl (FetchDataError
            ''Could not connect to the server. Please check your internet connection.''
            ''NetworkError'' None))
      | Resolved resp \<Rightarrow>
          Some (if ok resp then
                  (if (case contentType resp of None \<Rightarrow> False
                       | Some ct \<Rightarrow> str_includes ct ''application/json'')
                   then (case jsonBody resp of
                           Some data \<Rightarrow> Inr data
                         | None \<Rightarrow> Inl (FetchDataError
                             ''There was an issue understanding the data from the server (JSON parsing failed).''
                             ''JsonParseError'' None))
                   else Inl (FetchDataError
                          ''The server provided data in an unexpected format (expected JSON).''
                          ''JsonParseError'' None))
                else Inl (FetchDataError
                       (''Failed to load data: Server responded with '' @ digits (status resp)
                          @ '' ('' @ statusText resp @ '').'')
                       ''HttpError'' (Some (status resp)))))"

text \<open>The call of \<^verbatim>\<open>processDataFunction\<close>: a FetchDataError it throws is thrown on,
  anything else is wrapped.\<close>

definition processData ::
  "(jsval \<Rightarrow> js_error + string option) \<Rightarrow> jsval \<Rightarrow> js_error + string option" where
  "processData processDataFunction data =
     (case processDataFunction data of
        Inr htmlContent \<Rightarrow> Inr htmlContent
      | Inl (FetchDataError m t s) \<Rightarrow> Inl (FetchDataError m t s)
      | Inl e \<Rightarrow> Inl (FetchDataError ''There was an issue preparing the data for display.''
                   ''DataProcessingError'' None))"

text \<open>\<^verbatim>\<open>htmlContent && htmlContent.trim() !== ''\<close>, on the string or \<^verbatim>\<open>null\<close> the
  transform returns.\<close>

definition hasContent :: "string option \<Rightarrow> bool" where
  "hasContent htmlContent =
     (case htmlContent of None \<Rightarrow> False | Some h \<Rightarrow> h \<noteq> [] \<and> trim h \<noteq> [])"

text \<open>The display step. \<open>storageFull\<close> says that \<^verbatim>\<open>localStorage.setItem\<close> throws (the
  quota is exceeded); the content area has been written by then.\<close>

definition display ::
  "bool \<Rightarrow> string \<Rightarrow> string \<Rightarrow> string option \<Rightarrow> element \<Rightarrow> (string \<rightharpoonup> string)
   \<Rightarrow> completion \<times> element \<times> (string \<rightharpoonup> string)" where
  "display storageFull cacheKey emptyDataMessage htmlContent el store =
     (case (if hasContent htmlContent then htmlContent else None) of
        Some h \<Rightarrow>
          (if storageFull then (Thrown QuotaExceededError, setContent h el, store)
           else (Returned, setContent h el, store(cacheKey \<mapsto> h)))
      | None \<Rightarrow> (Returned, setContent (''<p>'' @ emptyDataMessage @ ''</p>'') el, store))"

text \<open>\<^verbatim>\<open>localStorage.getItem(cacheKey)\<close> under \<^verbatim>\<open>if (cachedData)\<close>: the entry, when
  there is one and it is not the empty string.\<close>

definition cachedData :: "(string \<rightharpoonup> string) \<Rightarrow> string \<Rightarrow> string option" where
  "cachedData store cacheKey =
     (case store cacheKey of None \<Rightarrow> None | Some c \<Rightarrow> if c = [] then None else Some c)"

text \<open>The \<^verbatim>\<open>try\<close> block: how it completes, the element and the storage after it, and the
  URLs it fetched. \<open>None\<close> when it never completes.\<close>

definition tryBlock ::
  "(string \<Rightarrow> fetch_outcome) \<Rightarrow> bool \<Rightarrow> string \<Rightarrow> string
   \<Rightarrow> (jsval \<Rightarrow> js_error + string option) \<Rightarrow> string \<Rightarrow> element \<Rightarrow> (string \<rightharpoonup> string)
   \<Rightarrow> (completion \<times> element \<times> (string \<rightharpoonup> string) \<times> string list) option" where
  "tryBlock net storageFull url cacheKey processDataFunction emptyDataMessage el store =
     (let el1 = clearContent (hideError (showLoader el)) in
      case cachedData store cacheKey of
        Some c \<Rightarrow> Some (Returned, hideLoader (setContent c el1), store, [])
      | None \<Rightarrow>
          (case retrieve (net url) of
             None \<Rightarrow> None
           | Some (Inl e) \<Rightarrow> Some (Thrown e, el1, store, [url])
           | Some (Inr data) \<Rightarrow>
               (case processData processDataFunction data of
                  Inl e \<Rightarrow> Some (Thrown e, el1, store, [url])
                | Inr htmlContent \<Rightarrow>
                    (case display storageFull cacheKey emptyDataMessage htmlContent el1 store of
                       (c, el2, store2) \<Rightarrow> Some (c, el2, store2, [url])))))"

definition catchBlock :: "bool \<Rightarrow> completion \<Rightarrow> element \<Rightarrow> element" where
  "catchBlock hasErrorElement c el =
     (case c of
        Returned \<Rightarrow> el
      | Thrown (FetchDataError m t s) \<Rightarrow> showError hasErrorElement m el
      | Thrown e \<Rightarrow>
          showError hasErrorElement ''An unexpected error occurred. Please try again.'' el)"

text \<open>\<^verbatim>\<open>fetchDataAndDisplay(url, elementId, cacheKey, processDataFunction, emptyDataMessage)\<close>
  run in browser \<open>b\<close>, with the behaviour of the network and of the storage quota given:
  the browser when the promise settles, \<open>None\<close> when it never does. What goes to the
  console is not part of the state.\<close>

definition fetchDataAndDisplay ::
  "(string \<Rightarrow> fetch_outcome) \<Rightarrow> bool \<Rightarrow> string \<Rightarrow> string \<Rightarrow> string
   \<Rightarrow> (jsval \<Rightarrow> js_error + string option) \<Rightarrow> string \<Rightarrow> browser \<Rightarrow> browser option" where
  "fetchDataAndDisplay net storageFull url elementId cacheKey processDataFunction
       emptyDataMessage b =
     (case document b elementId of
        None \<Rightarrow> Some b
      | Some el \<Rightarrow>
          (case tryBlock net storageFull url cacheKey processDataFunction emptyDataMessage
                  el (localStorage b) of
             None \<Rightarrow> None
           | Some (c, el2, store2, urls) \<Rightarrow>
               Some (b\<lparr>document := (document b)(elementId \<mapsto>
                          hideLoader (catchBlock (errorMessageElement el \<noteq> None) c el2)),
                       localStorage := store2,
                       fetched := fetched b @ urls\<rparr>)))"

definition loaderVisible :: "browser \<Rightarrow> string \<Rightarrow> bool" where
  "loaderVisible b elementId =
     (case document b elementId of
        None \<Rightarrow> False
      | Some el \<Rightarrow> (case loaderHidden el of None \<Rightarrow> False | Some h \<Rightarrow> \<not> h))"

text \<open>The display element once a run has settled.\<close>

definition elementAfter :: "browser option \<Rightarrow> string \<Rightarrow> element option" where
  "elementAfter r elementId = (case r of None \<Rightarrow> None | Some b \<Rightarrow> document b elementId)"

text \<open>The storages that only the engine has written: the empty one, one that a run of the
  engine leaves, and one from which an entry has been cleared.\<close>

inductive engineWritten :: "(string \<rightharpoonup> string) \<Rightarrow> bool" where
  fresh: "engineWritten Map.empty"
| run: "engineWritten (localStorage b) \<Longrightarrow>
        fetchDataAndDisplay net storageFull url elementId cacheKey processDataFunction
          emptyDataMessage b = Some b' \<Longrightarrow>
        engineWritten (localStorage b')"
| cleared: "engineWritten store \<Longrightarrow> engineWritten (store(k := None))"

text \<open>A storage in which every entry is a fragment that is neither empty nor blank.\<close>

definition nonEmptyEntries :: "(string \<rightharpoonup> string) \<Rightarrow> bool" where
  "nonEmptyEntries store = (\<forall>k c. store k = Some c \<longrightarrow> c \<noteq> [] \<and> trim c \<noteq> [])"

section \<open>The normalizers\<close>

subsection \<open>Array methods\<close>

text \<open>\<^verbatim>\<open>Array.prototype.find\<close> and \<^verbatim>\<open>Array.prototype.some\<close> with a callback that may
  throw: the first throw ends the search.\<close>

fun findE :: "(jsval \<Rightarrow> js_error + bool) \<Rightarrow> jsval list \<Rightarrow> js_error + jsval" where
  "findE p [] = Inr JUndefined"
| "findE p (x # xs) =
     (case p x of Inl e \<Rightarrow> Inl e | Inr found \<Rightarrow> if found then Inr x else findE p xs)"

fun someE :: "(jsval \<Rightarrow> js_error + bool) \<Rightarrow> jsval list \<Rightarrow> js_error + bool" where
  "someE p [] = Inr False"
| "someE p (x # xs) =
     (case p x of Inl e \<Rightarrow> Inl e | Inr found \<Rightarrow> if found then Inr True else someE p xs)"

text \<open>\<^verbatim>\<open>Array.prototype.map\<close> with a callback that may throw.\<close>

fun mapE :: "(jsval \<Rightarrow> js_error + string) \<Rightarrow> jsval list \<Rightarrow> js_error + string list" where
  "mapE g [] = Inr []"
| "mapE g (x # xs) =
     (case g x of
        Inl e \<Rightarrow> Inl e
      | Inr y \<Rightarrow> (case mapE g xs of Inl e \<Rightarrow> Inl e | Inr ys \<Rightarrow> Inr (y # ys)))"

text \<open>\<^verbatim>\<open>Array.prototype.find\<close> with a callback that cannot throw; \<^verbatim>\<open>undefined\<close> when
  nothing is found.\<close>

definition findFirst :: "(jsval \<Rightarrow> bool) \<Rightarrow> jsval list \<Rightarrow> jsval" where
  "findFirst p xs = (case find p xs of Some x \<Rightarrow> x | None \<Rightarrow> JUndefined)"

subsection \<open>Numbers in strings\<close>

definition isDigit :: "char \<Rightarrow> bool" where
  "isDigit c = (c \<in> set ''0123456789'')"

text \<open>The number a decimal digit stands for: its place among the ten digits.\<close>

definition digitValue :: "char \<Rightarrow> nat" where
  "digitValue c = length (takeWhile (\<lambda>d. d \<noteq> c) ''0123456789'')"

definition decimal :: "string \<Rightarrow> nat" where
  "decimal ds = foldl (\<lambda>n c. 10 * n + digitValue c) 0 ds"

text \<open>\<^verbatim>\<open>parseInt(s, 10)\<close>: leading white space is skipped, a sign is read, then the longest
  run of digits; \<open>None\<close> is \<^verbatim>\<open>NaN\<close>. \<open>parseIntOrZero v\<close> is \<^verbatim>\<open>parseInt(v, 10) || 0\<close> on any
  value, which \<^verbatim>\<open>parseInt\<close> first turns into a string.\<close>

definition parseInt :: "string \<Rightarrow> int option" where
  "parseInt s =
     (let t = dropWhile isWhiteSpace s;
          negative = (t \<noteq> [] \<and> hd t = CHR ''-'');
          signed = (t \<noteq> [] \<and> (hd t = CHR ''-'' \<or> hd t = CHR ''+''));
          ds = takeWhile isDigit (if signed then tl t else t)
      in if ds = [] then None
         else Some (if negative then - int (decimal ds) else int (decimal ds)))"

definition parseIntOrZero :: "jsval \<Rightarrow> int" where
  "parseIntOrZero v = (case parseInt (toString v) of Some n \<Rightarrow> n | None \<Rightarrow> 0)"

subsection \<open>Standings\<close>

text \<open>The callbacks of the three searches of \<^verbatim>\<open>processStandingsData\<close>:
  \<^verbatim>\<open>entry => entry.team && entry.team.id === '28'\<close>,
  \<^verbatim>\<open>item => item.type === 'total' || item.description === 'Overall'\<close> and
  \<^verbatim>\<open>r => r.type === 'total' || r.name === 'Overall'\<close>.\<close>

definition isCommandersEntry :: "jsval \<Rightarrow> js_error + bool" where
  "isCommandersEntry entry =
     (case getMember entry ''team'' of
        Inl e \<Rightarrow> Inl e
      | Inr team \<Rightarrow> Inr (truthy team \<and> member team ''id'' = JStr ''28''))"

definition isTotalItem :: "jsval \<Rightarrow> js_error + bool" where
  "isTotalItem item =
     (if nullish item then Inl TypeError
      else Inr (member item ''type'' = JStr ''total''
                \<or> member item ''description'' = JStr ''Overall''))"

definition isTotalRecord :: "jsval \<Rightarrow> js_error + bool" where
  "isTotalRecord r =
     (if nullish r then Inl TypeError
      else Inr (member r ''type'' = JStr ''total'' \<or> member r ''name'' = JStr ''Overall''))"

text \<open>Attempt 1, the loop \<^verbatim>\<open>for (const child of data.children)\<close>, with the variable
  \<^verbatim>\<open>teamRecord\<close> as its state.\<close>

fun searchChildren :: "jsval \<Rightarrow> jsval list \<Rightarrow> js_error + jsval" where
  "searchChildren teamRecord [] = Inr teamRecord"
| "searchChildren teamRecord (child # rest) =
     (case getMember child ''standings'' of
        Inl e \<Rightarrow> Inl e
      | Inr standings \<Rightarrow>
          if truthy standings \<and> truthy (member standings ''entries'')
             \<and> isArray (member standings ''entries'')
          then (case findE isCommandersEntry (elems (member standings ''entries'')) of
                  Inl e \<Rightarrow> Inl e
                | Inr found \<Rightarrow> if truthy found then Inr found else searchChildren found rest)
          else searchChildren teamRecord rest)"

definition attempt1 :: "jsval \<Rightarrow> js_error + jsval" where
  "attempt1 data =
     (if truthy (member data ''children'') \<and> isArray (member data ''children'')
      then searchChildren JUndefined (elems (member data ''children''))
      else Inr JUndefined)"

text \<open>Attempts 2 and 3, an \<^verbatim>\<open>if\<close> with an \<^verbatim>\<open>else if\<close>: the record object the three
  attempts leave in \<^verbatim>\<open>teamRecord\<close>.\<close>

definition findTeamRecord :: "jsval \<Rightarrow> js_error + jsval" where
  "findTeamRecord data =
     (case attempt1 data of
        Inl e \<Rightarrow> Inl e
      | Inr teamRecord \<Rightarrow>
          if \<not> truthy teamRecord \<and> truthy (member data ''record'')
             \<and> isArray (member (member data ''record'') ''items'')
             \<and> 0 < length (elems (member (member data ''record'') ''items''))
          then findE isTotalItem (elems (member (member data ''record'') ''items''))
          else if \<not> truthy teamRecord \<and> isArray (member data ''records'')
                  \<and> 0 < length (elems (member data ''records''))
          then findE isTotalRecord (elems (member data ''records''))
          else Inr teamRecord)"

text \<open>The match of \<^verbatim>\<open>/^(\d+)-(\d+)(?:-(\d+))?$/\<close>: the groups 1, 2 and 3, the third
  \<^verbatim>\<open>undefined\<close> when the optional part is missing.\<close>

definition summaryMatch :: "string \<Rightarrow> (jsval \<times> jsval \<times> jsval) option" where
  "summaryMatch s =
     (let w = takeWhile isDigit s; r1 = dropWhile isDigit s;
          l = takeWhile isDigit (tl r1); r2 = dropWhile isDigit (tl r1);
          t = tl r2
      in if w \<noteq> [] \<and> r1 \<noteq> [] \<and> hd r1 = CHR ''-'' \<and> l \<noteq> [] then
           (if r2 = [] then Some (JStr w, JStr l, JUndefined)
            else if hd r2 = CHR ''-'' \<and> t \<noteq> [] \<and> list_all isDigit t
            then Some (JStr w, JStr l, JStr t)
            else None)
         else None)"

definition standingsLine :: "int \<Rightarrow> int \<Rightarrow> int \<Rightarrow> string \<Rightarrow> string" where
  "standingsLine wins losses ties source =
     ''<p>Washington Commanders: '' @ numberToString wins @ ''V - '' @ numberToString losses
       @ ''D - '' @ numberToString ties @ ''E (Source: '' @ source @ '')</p>''"

text \<open>Priority 1: the line from the \<^verbatim>\<open>summary\<close> string, when there is one and it
  matches.\<close>

definition fromSummary :: "jsval \<Rightarrow> string option" where
  "fromSummary teamRecord =
     (if truthy (member teamRecord ''summary'')
         \<and> typeof (member teamRecord ''summary'') = ''string''
      then (case summaryMatch (toString (member teamRecord ''summary'')) of
              Some (g1, g2, g3) \<Rightarrow>
                Some (standingsLine (parseIntOrZero g1) (parseIntOrZero g2) (parseIntOrZero g3)
                        ''Summary String'')
            | None \<Rightarrow> None)
      else None)"

text \<open>\<^verbatim>\<open>name.toUpperCase()\<close>, on the letters a to z (it is called on \<^verbatim>\<open>'wins'\<close>,
  \<^verbatim>\<open>'losses'\<close> and \<^verbatim>\<open>'ties'\<close>).\<close>

definition toUpperCase :: "string \<Rightarrow> string" where
  "toUpperCase s =
     map (\<lambda>c. case map_of (zip ''abcdefghijklmnopqrstuvwxyz'' ''ABCDEFGHIJKLMNOPQRSTUVWXYZ'') c of
                Some u \<Rightarrow> u | None \<Rightarrow> c) s"

text \<open>The callback of the search in \<^verbatim>\<open>getStatValue\<close>:
  \<^verbatim>\<open>s => s && (s.name === name || s.abbreviation === name.toUpperCase().slice(0,1))\<close>.\<close>

definition isStat :: "string \<Rightarrow> jsval \<Rightarrow> bool" where
  "isStat name s =
     (truthy s \<and> (member s ''name'' = JStr name
                 \<or> member s ''abbreviation'' = JStr (take 1 (toUpperCase name))))"

text \<open>What \<^verbatim>\<open>getStatValue\<close> returns for a stat whose \<^verbatim>\<open>value\<close> is \<open>v\<close>.\<close>

definition statNumber :: "jsval \<Rightarrow> int" where
  "statNumber v =
     (case v of JNum n \<Rightarrow> n | JStr s \<Rightarrow> parseIntOrZero (JStr s) | _ \<Rightarrow> 0)"

text \<open>\<^verbatim>\<open>getStatValue(name)\<close>. Its last line is
  \<^verbatim>\<open>stat && typeof stat.value === 'number' ? stat.value : (typeof stat.value === 'string' ? ... : 0)\<close>:
  when no stat is found the condition is false and the other branch reads
  \<^verbatim>\<open>stat.value\<close> on \<^verbatim>\<open>undefined\<close>, which throws.\<close>

definition getStatValue :: "jsval list \<Rightarrow> string \<Rightarrow> js_error + int" where
  "getStatValue stats name =
     (let stat = findFirst (isStat name) stats in
      if truthy stat \<and> typeof (member stat ''value'') = ''number''
      then Inr (statNumber (member stat ''value''))
      else (case getMember stat ''value'' of
              Inl e \<Rightarrow> Inl e
            | Inr v \<Rightarrow> Inr (if typeof v = ''string'' then parseIntOrZero v else 0)))"

text \<open>\<^verbatim>\<open>s => s.name === 'wins'\<close>, the callback of \<^verbatim>\<open>teamRecord.stats.some\<close>.\<close>

definition isNamedWins :: "jsval \<Rightarrow> js_error + bool" where
  "isNamedWins s =
     (case getMember s ''name'' of Inl e \<Rightarrow> Inl e | Inr n \<Rightarrow> Inr (n = JStr ''wins''))"

text \<open>\<^verbatim>\<open>teamRecord.stats.some(s => s.name === 'wins')\<close> when no element is \<^verbatim>\<open>null\<close>: an
  entry named \<^verbatim>\<open>wins\<close> is present.\<close>

definition winsEntryPresent :: "jsval list \<Rightarrow> bool" where
  "winsEntryPresent stats = list_ex (\<lambda>s. member s ''name'' = JStr ''wins'') stats"

text \<open>Priority 2: the line from the \<^verbatim>\<open>stats\<close> array.\<close>

definition fromStats :: "jsval \<Rightarrow> js_error + string option" where
  "fromStats teamRecord =
     (if truthy (member teamRecord ''stats'') \<and> isArray (member teamRecord ''stats'') then
        (let stats = elems (member teamRecord ''stats'') in
         case getStatValue stats ''wins'' of
           Inl e \<Rightarrow> Inl e
         | Inr wins \<Rightarrow>
         (case getStatValue stats ''losses'' of
            Inl e \<Rightarrow> Inl e
          | Inr losses \<Rightarrow>
          (case getStatValue stats ''ties'' of
             Inl e \<Rightarrow> Inl e
           | Inr ties \<Rightarrow>
               if 0 < wins \<or> 0 < losses \<or> 0 < ties
               then Inr (Some (standingsLine wins losses ties ''Stats Array''))
               else (case someE isNamedWins stats of
                       Inl e \<Rightarrow> Inl e
                     | Inr named \<Rightarrow>
                         if named then Inr (Some (standingsLine wins losses ties ''Stats Array''))
                         else Inr None))))
      else Inr None)"

text \<open>The second half of \<^verbatim>\<open>processStandingsData\<close>: from the record object to the line.\<close>

definition extractRecord :: "jsval \<Rightarrow> js_error + string option" where
  "extractRecord teamRecord =
     (case fromSummary teamRecord of
        Some line \<Rightarrow> Inr (Some line)
      | None \<Rightarrow> fromStats teamRecord)"

text \<open>\<^verbatim>\<open>processStandingsData(data)\<close>: the line, \<open>None\<close> for \<^verbatim>\<open>null\<close> (the empty signal),
  or the error thrown.\<close>

definition processStandingsData :: "jsval \<Rightarrow> js_error + string option" where
  "processStandingsData data =
     (if truthy data \<and> typeof data = ''object'' then
        (case findTeamRecord data of
           Inl e \<Rightarrow> Inl e
         | Inr teamRecord \<Rightarrow> if truthy teamRecord then extractRecord teamRecord else Inr None)
      else Inr None)"

subsection \<open>Podcasts\<close>

definition newline :: string where
  "newline = [CHR 0x0A]"

definition spaces :: "nat \<Rightarrow> string" where
  "spaces n = replicate n (CHR 0x20)"

text \<open>The template literal of a podcast card, with its line breaks and indentation.\<close>

definition podcastCard :: "jsval \<Rightarrow> jsval \<Rightarrow> piece list" where
  \<open>podcastCard title src =
     [Lit (newline @ spaces 8 @ ''<div class="podcast-item">''
           @ newline @ spaces 12 @ ''<h3>''), Sub title,
      Lit (''</h3>'' @ newline @ spaces 12 @ ''<audio controls aria-label="Reproducir ''),
      Sub title,
      Lit (''">'' @ newline @ spaces 16 @ ''<source src="''), Sub src,
      Lit (''" type="audio/mpeg">''
           @ newline @ spaces 16 @ ''Tu navegador no soporta audio HTML5.''
           @ newline @ spaces 12 @ ''</audio>''
           @ newline @ spaces 8 @ ''</div>''
           @ newline @ spaces 4)]\<close>

text \<open>The callback of \<^verbatim>\<open>data.podcasts.map\<close>: the card, or the empty string for an item
  without \<^verbatim>\<open>src\<close>, after a warning that interpolates the title. Reading
  \<^verbatim>\<open>podcast.title\<close> throws on \<^verbatim>\<open>null\<close>.\<close>

definition podcastItem :: "jsval \<Rightarrow> js_error + string" where
  \<open>podcastItem podcast =
     (case getMember podcast ''title'' of
        Inl e \<Rightarrow> Inl e
      | Inr t \<Rightarrow>
          (let title = orElse t (JStr ''Untitled Podcast'');
               src = orElse (member podcast ''src'') (JStr [])
           in if truthy src then template (podcastCard title src)
              else bindE (template [Lit ''processPodcasts: Podcast "'', Sub title,
                                    Lit ''" is missing src and will be skipped.''])
                     (\<lambda>warning. Inr [])))\<close>

definition processPodcasts :: "jsval \<Rightarrow> js_error + string option" where
  "processPodcasts data =
     (if truthy data \<and> truthy (member data ''podcasts'') \<and> isArray (member data ''podcasts'')
         \<and> length (elems (member data ''podcasts'')) \<noteq> 0
      then (case mapE podcastItem (elems (member data ''podcasts'')) of
              Inl e \<Rightarrow> Inl e
            | Inr cards \<Rightarrow> Inr (Some (concat cards)))
      else Inr None)"

text \<open>An item with a source, and the card it is rendered as.\<close>

definition hasSrc :: "jsval \<Rightarrow> bool" where
  "hasSrc podcast = truthy (member podcast ''src'')"

definition cardOf :: "jsval \<Rightarrow> string" where
  "cardOf podcast =
     concat (map pieceText
       (podcastCard (orElse (member podcast ''title'') (JStr ''Untitled Podcast''))
          (member podcast ''src'')))"

subsection \<open>Events\<close>

text \<open>
  Two things the events normalizer asks of the JavaScript host are parameters of its
  model. \<open>formatDate d\<close> is \<^verbatim>\<open>new Date(d).toLocaleString('es-ES', ...)\<close> for the zone
  Europe/Madrid, \<open>None\<close> when the date is invalid or the call throws (the script keeps
  \<^verbatim>\<open>'Date N/A'\<close> then). \<open>lessThan2 s\<close> is \<^verbatim>\<open>s < 2\<close> for a string \<open>s\<close>, the comparison of
  the number the string converts to. A date that does not convert makes \<^verbatim>\<open>new Date\<close>
  throw, and the warning of the \<^verbatim>\<open>catch\<close> block, which interpolates the date, throws
  again.
\<close>

definition eventDateStr :: "(jsval \<Rightarrow> string option) \<Rightarrow> jsval \<Rightarrow> js_error + string" where
  "eventDateStr formatDate event =
     (if truthy (member event ''date'') then
        (if convertible (member event ''date'')
         then Inr (case formatDate (member event ''date'') of
                     Some s \<Rightarrow> s | None \<Rightarrow> ''Date N/A'')
         else Inl TypeError)
      else Inr ''Date N/A'')"

text \<open>\<open>index0 v\<close> is \<^verbatim>\<open>v[0]\<close> on a value that is neither \<^verbatim>\<open>null\<close> nor \<^verbatim>\<open>undefined\<close>.\<close>

fun index0 :: "jsval \<Rightarrow> jsval" where
  "index0 (JArr xs) = (case xs of [] \<Rightarrow> JUndefined | x # rest \<Rightarrow> x)"
| "index0 (JStr s) = (case s of [] \<Rightarrow> JUndefined | c # rest \<Rightarrow> JStr [c])"
| "index0 (JObj kvs) = (case map_of kvs ''0'' of Some v \<Rightarrow> v | None \<Rightarrow> JUndefined)"
| "index0 v = JUndefined"

text \<open>\<^verbatim>\<open>event.competitions && event.competitions[0]\<close>.\<close>

definition competitionOf :: "jsval \<Rightarrow> jsval" where
  "competitionOf event =
     (if truthy (member event ''competitions'') then index0 (member event ''competitions'')
      else member event ''competitions'')"

text \<open>\<open>lessThanTwo lessThan2 v\<close> is \<^verbatim>\<open>v < 2\<close>: \<^verbatim>\<open>undefined\<close>, an object and a function
  convert to \<^verbatim>\<open>NaN\<close>, \<^verbatim>\<open>null\<close> to 0, a boolean to 0 or 1, an array to the number its
  string converts to.\<close>

fun lessThanTwo :: "(string \<Rightarrow> bool) \<Rightarrow> jsval \<Rightarrow> bool" where
  "lessThanTwo lessThan2 (JNum n) = (n < 2)"
| "lessThanTwo lessThan2 (JStr s) = lessThan2 s"
| "lessThanTwo lessThan2 (JArr xs) = lessThan2 (toString (JArr xs))"
| "lessThanTwo lessThan2 JNull = True"
| "lessThanTwo lessThan2 (JBool b) = True"
| "lessThanTwo lessThan2 v = False"

text \<open>The two fallback lines, as template literals; the warning before each interpolates
  the same name.\<close>

definition competitionIncomplete :: "jsval \<Rightarrow> string \<Rightarrow> piece list" where
  "competitionIncomplete event dateStr =
     [Lit ''<p>Evento: '', Sub (orElse (member event ''name'') (JStr ''Unnamed Event'')),
      Lit '' - Fecha: '', Lit dateStr,
      Lit ('' - Datos de competici'' @ [CHR 0xF3] @ ''n incompletos</p>'')]"

definition teamIncomplete :: "jsval \<Rightarrow> string \<Rightarrow> piece list" where
  "teamIncomplete event dateStr =
     [Lit ''<p>Evento: '', Sub (orElse (member event ''name'') (JStr ''Unnamed Event'')),
      Lit '' - Fecha: '', Lit dateStr, Lit '' - Datos de equipo incompletos</p>'']"

definition formatTeamInfo :: "jsval \<Rightarrow> js_error + string" where
  \<open>formatTeamInfo teamData =
     (let team = member teamData ''team'';
          name = orElse (orElse (member team ''displayName'') (member team ''name''))
                   (JStr ''Unknown Team'');
          abbreviation = orElse (member team ''abbreviation'') (JStr ''N/A'');
          logo = orElse (member team ''logo'') (JStr [])
      in template
           [Sub abbreviation, Lit '' <img src="'', Sub logo, Lit ''" alt="'', Sub name,
            Lit '' logo" style="height: 20px; vertical-align: middle; '',
            Lit (if truthy logo then [] else ''display:none;''), Lit ''">''])\<close>

text \<open>\<^verbatim>\<open>competition.status && competition.status.type && competition.status.type.k\<close>.\<close>

definition statusType :: "jsval \<Rightarrow> string \<Rightarrow> jsval" where
  "statusType competition k = andMember (andMember (member competition ''status'') ''type'') k"

text \<open>The variable \<^verbatim>\<open>score\<close>: the string of the two scores, the description as the
  status holds it, or \<^verbatim>\<open>'Pendiente'\<close>.\<close>

definition scoreOf :: "jsval \<Rightarrow> jsval \<Rightarrow> jsval \<Rightarrow> js_error + jsval" where
  "scoreOf competition homeTeamData awayTeamData =
     (if truthy (statusType competition ''completed'')
      then bindE (template [Sub (orElse (member homeTeamData ''score'') (JStr ''0'')),
                            Lit '' - '',
                            Sub (orElse (member awayTeamData ''score'') (JStr ''0''))])
             (\<lambda>both. Inr (JStr both))
      else if truthy (statusType competition ''description'')
      then Inr (statusType competition ''description'')
      else Inr (JStr ''Pendiente''))"

definition hasSide :: "string \<Rightarrow> jsval \<Rightarrow> bool" where
  "hasSide side t = (truthy t \<and> member t ''homeAway'' = JStr side)"

text \<open>The guard at the head of the callback, \<^verbatim>\<open>!event || typeof event !== 'object'\<close>,
  negated: the entry is an object or an array.\<close>

definition validEvent :: "jsval \<Rightarrow> bool" where
  "validEvent event = (truthy event \<and> typeof event = ''object'')"

text \<open>\<^verbatim>\<open>competition.competitors\<close>, read behind \<^verbatim>\<open>!competition ||\<close>.\<close>

definition competitorsOf :: "jsval \<Rightarrow> jsval" where
  "competitorsOf event = andMember (competitionOf event) ''competitors''"

text \<open>The guard
  \<^verbatim>\<open>!competition || !competition.competitors || competition.competitors.length < 2\<close>,
  negated, and the guard
  \<^verbatim>\<open>!homeTeamData || !awayTeamData || !homeTeamData.team || !awayTeamData.team\<close>,
  negated.\<close>

definition competitionComplete :: "(string \<Rightarrow> bool) \<Rightarrow> jsval \<Rightarrow> bool" where
  "competitionComplete lessThan2 event =
     (truthy (competitionOf event) \<and> truthy (competitorsOf event)
      \<and> \<not> lessThanTwo lessThan2 (member (competitorsOf event) ''length''))"

definition teamsComplete :: "jsval \<Rightarrow> jsval \<Rightarrow> bool" where
  "teamsComplete homeTeamData awayTeamData =
     (truthy homeTeamData \<and> truthy awayTeamData \<and> truthy (member homeTeamData ''team'')
      \<and> truthy (member awayTeamData ''team''))"

text \<open>The callback of \<^verbatim>\<open>data.events.map\<close>. \<^verbatim>\<open>competitors.find\<close> is a function only when
  \<^verbatim>\<open>competitors\<close> is an array; the call throws otherwise.\<close>

definition processEvent ::
  "(jsval \<Rightarrow> string option) \<Rightarrow> (string \<Rightarrow> bool) \<Rightarrow> jsval \<Rightarrow> js_error + string" where
  "processEvent formatDate lessThan2 event =
     (if validEvent event then
        bindE (eventDateStr formatDate event) (\<lambda>dateStr.
          if competitionComplete lessThan2 event then
            (if isArray (competitorsOf event) then
               (let homeTeamData = findFirst (hasSide ''home'') (elems (competitorsOf event));
                    awayTeamData = findFirst (hasSide ''away'') (elems (competitorsOf event))
                in if teamsComplete homeTeamData awayTeamData then
                     bindE (formatTeamInfo homeTeamData) (\<lambda>homeTeamDisplay.
                     bindE (formatTeamInfo awayTeamData) (\<lambda>awayTeamDisplay.
                     bindE (scoreOf (competitionOf event) homeTeamData awayTeamData) (\<lambda>score.
                       template [Lit ''<p>'', Lit awayTeamDisplay, Lit '' @ '',
                                 Lit homeTeamDisplay, Lit '' | Fecha: '', Lit dateStr,
                                 Lit '' | Estado: '', Sub score, Lit ''</p>''])))
                   else template (teamIncomplete event dateStr))
             else Inl TypeError)
          else template (competitionIncomplete event dateStr))
      else Inr [])"

definition processTeamEventsData ::
  "(jsval \<Rightarrow> string option) \<Rightarrow> (string \<Rightarrow> bool) \<Rightarrow> jsval \<Rightarrow> js_error + string option" where
  "processTeamEventsData formatDate lessThan2 data =
     (if truthy data \<and> truthy (member data ''events'') \<and> isArray (member data ''events'')
         \<and> length (elems (member data ''events'')) \<noteq> 0
      then (case mapE (processEvent formatDate lessThan2) (elems (member data ''events'')) of
              Inl e \<Rightarrow> Inl e
            | Inr eventHtmls \<Rightarrow>
                (let processedEvents = concat (filter (\<lambda>eventHtml. eventHtml \<noteq> []) eventHtmls)
                 in if processedEvents = [] \<or> trim processedEvents = [] then Inr None
                    else Inr (Some processedEvents)))
      else Inr None)"

text \<open>The competitors found by their side tag, as the callback binds them.\<close>

definition homeOf :: "jsval \<Rightarrow> jsval" where
  "homeOf event = findFirst (hasSide ''home'') (elems (competitorsOf event))"

definition awayOf :: "jsval \<Rightarrow> jsval" where
  "awayOf event = findFirst (hasSide ''away'') (elems (competitorsOf event))"

text \<open>A well-formed entry of the events list: no object in it holds a property named
  \<^verbatim>\<open>toString\<close>, and the competitors of its first competition are a list, when it has
  any.\<close>

definition wellFormedEvent :: "jsval \<Rightarrow> bool" where
  "wellFormedEvent event =
     (plain event \<and> (if truthy (competitorsOf event) then isArray (competitorsOf event) else True))"

section \<open>The page\<close>

text \<open>The endpoints and the sections of the page, and a few browsers, networks and
  transforms to run the engine on.\<close>

definition eventsUrl :: string where
  "eventsUrl = ''/api/espn-events''"

definition contentUrl :: string where
  "contentUrl = ''/api/content''"

text \<open>A section of \<^verbatim>\<open>index.html\<close> once the \<^verbatim>\<open>DOMContentLoaded\<close> handler has added its
  \<^verbatim>\<open>.data-content\<close> child: the loader shows, the error message is hidden.\<close>

definition pageSection :: element where
  "pageSection =
     \<lparr>loaderHidden = Some False,
      errorMessageElement =
        Some (''Error al cargar los datos. Int'' @ [CHR 0xE9] @ ''ntalo de nuevo m''
                @ [CHR 0xE1] @ ''s tarde.'', True),
      hasDataContent = True,
      contentHTML = []\<rparr>"

definition browserWith :: "string \<Rightarrow> (string \<rightharpoonup> string) \<Rightarrow> browser" where
  "browserWith elementId store =
     \<lparr>document = [elementId \<mapsto> pageSection], localStorage = store, fetched = []\<rparr>"

definition offline :: "string \<Rightarrow> fetch_outcome" where
  "offline url = Rejected"

definition hung :: "string \<Rightarrow> fetch_outcome" where
  "hung url = Pending"

definition serves :: "jsval \<Rightarrow> string \<Rightarrow> fetch_outcome" where
  "serves data url =
     Resolved \<lparr>ok = True, status = 200, statusText = ''OK'',
               contentType = Some ''application/json; charset=utf-8'', jsonBody = Some data\<rparr>"

definition noData :: "jsval \<Rightarrow> js_error + string option" where
  "noData data = Inr None"

definition asText :: "jsval \<Rightarrow> js_error + string option" where
  "asText data = Inr (Some (toString data))"

text \<open>Standings inputs. \<open>teamStandings\<close> has the record under \<^verbatim>\<open>record.items\<close>;
  \<open>recordsOnly\<close> has it under \<^verbatim>\<open>records\<close>; \<open>shadowedRecords\<close> has it under \<^verbatim>\<open>records\<close>
  too, beside a \<^verbatim>\<open>record.items\<close> list that holds no total item.\<close>

definition totalItem :: jsval where
  "totalItem = JObj [(''type'', JStr ''total''), (''summary'', JStr ''11-5-1'')]"

definition teamStandings :: jsval where
  "teamStandings = JObj [(''record'', JObj [(''items'', JArr [totalItem])])]"

definition recordsOnly :: jsval where
  "recordsOnly = JObj [(''records'', JArr [totalItem])]"

definition shadowedRecords :: jsval where
  "shadowedRecords =
     JObj [(''record'',
            JObj [(''items'', JArr [JObj [(''type'', JStr ''home''), (''summary'', JStr ''5-3'')]])]),
           (''records'', JArr [totalItem])]"

text \<open>Record objects without a summary: stats named in full with all values zero, stats
  known by their abbreviations only, with positive values and with all values zero, and
  the stats of a team without a ties entry.\<close>

definition stat :: "string \<Rightarrow> string \<Rightarrow> int \<Rightarrow> jsval" where
  "stat k n v = JObj [(k, JStr n), (''value'', JNum v)]"

definition zeroStats :: jsval where
  "zeroStats =
     JObj [(''stats'', JArr [stat ''name'' ''wins'' 0, stat ''name'' ''losses'' 0,
                              stat ''name'' ''ties'' 0])]"

definition abbreviatedStats :: jsval where
  "abbreviatedStats =
     JObj [(''stats'', JArr [stat ''abbreviation'' ''W'' 3, stat ''abbreviation'' ''L'' 2,
                              stat ''abbreviation'' ''T'' 1])]"

definition zeroAbbreviatedStats :: jsval where
  "zeroAbbreviatedStats =
     JObj [(''stats'', JArr [stat ''abbreviation'' ''W'' 0, stat ''abbreviation'' ''L'' 0,
                              stat ''abbreviation'' ''T'' 0])]"

definition statsWithoutTies :: jsval where
  "statsWithoutTies =
     JObj [(''stats'', JArr [stat ''name'' ''wins'' 7, stat ''name'' ''losses'' 9])]"

text \<open>Content and schedule inputs: a podcasts list in which no item has a source, and
  one in which the second item has; a finished game in which only the home side has a
  score, with a host that renders its kick-off and compares no string; an event without
  competitions, and a list of events.\<close>

definition podcastsWithoutSrc :: jsval where
  "podcastsWithoutSrc =
     JObj [(''podcasts'', JArr [JObj [(''title'', JStr ''Episodio 1'')],
                                 JObj [(''title'', JStr ''Episodio 2''), (''src'', JStr [])]])]"

definition mixedPodcasts :: jsval where
  "mixedPodcasts =
     JObj [(''podcasts'', JArr [JObj [(''title'', JStr ''Episodio 1'')],
                                 JObj [(''title'', JStr ''Episodio 2''), (''src'', JStr ''ep2.mp3'')]])]"

definition madrid :: "jsval \<Rightarrow> string option" where
  "madrid d = (if d = JStr ''2024-09-08T20:25Z'' then Some ''08/09/2024, 22:25'' else None)"

definition notANumber :: "string \<Rightarrow> bool" where
  "notANumber s = False"

definition competitor :: "string \<Rightarrow> string \<Rightarrow> (string \<times> jsval) list \<Rightarrow> jsval" where
  "competitor side abbreviation extra =
     JObj ([(''homeAway'', JStr side),
            (''team'', JObj [(''abbreviation'', JStr abbreviation),
                             (''displayName'', JStr abbreviation)])] @ extra)"

definition buccaneers :: jsval where
  "buccaneers = competitor ''home'' ''TB'' [(''score'', JStr ''37'')]"

definition commanders :: jsval where
  "commanders = competitor ''away'' ''WSH'' []"

definition finishedGame :: jsval where
  "finishedGame =
     JObj [(''name'', JStr ''WSH at TB''), (''date'', JStr ''2024-09-08T20:25Z''),
           (''competitions'',
            JArr [JObj [(''competitors'', JArr [buccaneers, commanders]),
                        (''status'', JObj [(''type'', JObj [(''completed'', JBool True)])])]])]"

definition byeWeek :: jsval where
  "byeWeek = JObj [(''name'', JStr ''Bye'')]"

definition schedule :: jsval where
  "schedule = JObj [(''events'', JArr [finishedGame, JNull, byeWeek, JNum 3])]"


definition podcastsWithNull :: jsval where
  "podcastsWithNull =
     JObj [(''podcasts'', JArr [JObj [(''title'', JStr ''Episodio 1'')], JNull])]"

definition podcastsWithToString :: jsval where
  "podcastsWithToString =
     JObj [(''podcasts'', JArr [JObj [(''title'', JObj [(''toString'', JStr ''Episodio 1'')])]])]"

section \<open>Properties of the engine\<close>

lemma trim_empty_iff: "trim s = [] \<longleftrightarrow> (\<forall>c \<in> set s. isWhiteSpace c)"
proof -
  have "trim s = [] \<longleftrightarrow> (\<forall>c \<in> set (dropWhile isWhiteSpace s). isWhiteSpace c)"
    by (simp add: trim_def)
  also have "\<dots> \<longleftrightarrow> (\<forall>c \<in> set s. isWhiteSpace c)"
  proof
    assume r: "\<forall>c \<in> set (dropWhile isWhiteSpace s). isWhiteSpace c"
    have "set s = set (takeWhile isWhiteSpace s) \<union> set (dropWhile isWhiteSpace s)"
      by (metis set_append takeWhile_dropWhile_id)
    then show "\<forall>c \<in> set s. isWhiteSpace c"
      using r by (auto dest: set_takeWhileD)
  next
    assume "\<forall>c \<in> set s. isWhiteSpace c"
    then show "\<forall>c \<in> set (dropWhile isWhiteSpace s). isWhiteSpace c"
      by (auto dest: set_dropWhileD)
  qed
  finally show ?thesis .
qed

lemma loaderHidden_hideLoader: "loaderHidden (hideLoader el) \<noteq> Some False"
  by (cases "loaderHidden el") (simp_all add: hideLoader_def)

lemma contentHTML_hideLoader: "contentHTML (hideLoader el) = contentHTML el"
  by (simp add: hideLoader_def)

lemma contentHTML_setContent: "contentHTML (setContent html el) = html"
  by (simp add: setContent_def)

lemma errorMessageElement_hideLoader:
  "errorMessageElement (hideLoader el) = errorMessageElement el"
  by (simp add: hideLoader_def)

lemma retrieve_json:
  assumes "net url = Resolved resp" and "ok resp" and "contentType resp = Some ct"
    and "str_includes ct ''application/json''" and "jsonBody resp = Some data"
  shows "retrieve (net url) = Some (Inr data)"
  using assms by (simp add: retrieve_def)

lemma retrieve_serves: "retrieve (serves data url) = Some (Inr data)"
  by (simp add: retrieve_def serves_def)

lemma processData_Inr: "processData f data = Inr h \<longleftrightarrow> f data = Inr h"
  by (auto simp: processData_def split: sum.splits js_error.splits)

text \<open>The run that finds nothing to show: the cache is cold, the network delivers JSON,
  and the transform returns \<^verbatim>\<open>null\<close>, the empty string or white space.\<close>

lemma empty_path:
  assumes "document b elementId = Some el"
    and "cachedData (localStorage b) cacheKey = None"
    and "retrieve (net url) = Some (Inr data)"
    and "f data = Inr h"
    and "\<not> hasContent h"
  shows "fetchDataAndDisplay net storageFull url elementId cacheKey f msg b =
     Some (b\<lparr>document := (document b)(elementId \<mapsto>
                hideLoader (setContent (''<p>'' @ msg @ ''</p>'')
                  (clearContent (hideError (showLoader el))))),
             fetched := fetched b @ [url]\<rparr>)"
proof -
  from assms(4) have "processData f data = Inr h"
    by (simp add: processData_Inr)
  with assms(1,2,3,5) show ?thesis
    by (simp add: fetchDataAndDisplay_def tryBlock_def display_def catchBlock_def)
qed

lemma store_written:
  assumes "fetchDataAndDisplay net storageFull url elementId cacheKey f msg b = Some b'"
    and "localStorage b' \<noteq> localStorage b"
  shows "\<exists>data h. retrieve (net url) = Some (Inr data) \<and> f data = Inr (Some h)
           \<and> h \<noteq> [] \<and> trim h \<noteq> [] \<and> localStorage b' = (localStorage b)(cacheKey \<mapsto> h)"
proof -
  from assms obtain el where el: "document b elementId = Some el"
    by (cases "document b elementId") (auto simp: fetchDataAndDisplay_def)
  from assms el obtain c el2 store2 urls where
    tb: "tryBlock net storageFull url cacheKey f msg el (localStorage b)
           = Some (c, el2, store2, urls)"
    and st: "localStorage b' = store2"
    by (auto simp: fetchDataAndDisplay_def split: option.splits prod.splits)
  from tb st assms(2) obtain data where d: "retrieve (net url) = Some (Inr data)"
    by (auto simp: tryBlock_def Let_def split: option.splits sum.splits)
  from tb st assms(2) d obtain h where h: "processData f data = Inr h"
    by (auto simp: tryBlock_def Let_def split: option.splits sum.splits)
  from tb st assms(2) d h
  have "hasContent h \<and> store2 = (localStorage b)(cacheKey \<mapsto> the h)"
    by (auto simp: tryBlock_def Let_def display_def split: option.splits sum.splits if_splits)
  moreover then obtain s where "h = Some s" "s \<noteq> []" "trim s \<noteq> []"
    by (cases h) (auto simp: hasContent_def)
  ultimately show ?thesis
    using d h st by (auto simp: processData_Inr)
qed

text \<open>The engine stores fragments that are neither empty nor blank only: on a storage that
  nothing else has written, every entry is one.\<close>

lemma engine_keeps_entries_nonempty:
  assumes "fetchDataAndDisplay net storageFull url elementId cacheKey f msg b = Some b'"
    and "nonEmptyEntries (localStorage b)"
  shows "nonEmptyEntries (localStorage b')"
proof (cases "localStorage b' = localStorage b")
  case True
  with assms(2) show ?thesis by simp
next
  case False
  with assms(1) obtain h where "h \<noteq> []" "trim h \<noteq> []"
    and "localStorage b' = (localStorage b)(cacheKey \<mapsto> h)"
    using store_written by blast
  with assms(2) show ?thesis
    by (simp add: nonEmptyEntries_def)
qed

lemma engineWritten_nonEmptyEntries:
  assumes "engineWritten store"
  shows "nonEmptyEntries store"
  using assms
proof (induction rule: engineWritten.induct)
  case fresh
  show ?case
    by (simp add: nonEmptyEntries_def)
next
  case (run b net storageFull url elementId cacheKey processDataFunction emptyDataMessage b')
  then show ?case
    using engine_keeps_entries_nonempty by blast
next
  case (cleared store k)
  then show ?case
    by (simp add: nonEmptyEntries_def)
qed

text \<open>An entry that is the empty string fails the test \<^verbatim>\<open>if (cachedData)\<close> and the engine
  goes to the network; no run of the engine writes such an entry.\<close>

lemma empty_entry_is_fetched:
  "localStorage (browserWith ''teams-data'' [''commanders-events'' \<mapsto> []])
       ''commanders-events'' = Some []
   \<and> map_option fetched
       (fetchDataAndDisplay offline False eventsUrl ''teams-data'' ''commanders-events'' noData
          ''No hay partidos'' (browserWith ''teams-data'' [''commanders-events'' \<mapsto> []]))
     = Some [eventsUrl]
   \<and> \<not> engineWritten [''commanders-events'' \<mapsto> []]"
proof -
  have "\<not> nonEmptyEntries [''commanders-events'' \<mapsto> []]"
    by (simp add: nonEmptyEntries_def)
  then have "\<not> engineWritten [''commanders-events'' \<mapsto> []]"
    using engineWritten_nonEmptyEntries by blast
  then show ?thesis
    by (simp add: browserWith_def fetchDataAndDisplay_def tryBlock_def cachedData_def
        retrieve_def offline_def)
qed

text \<open>
  Claim C1. Let the local storage be one that only the engine has written, and let it
  hold an entry under \<open>cacheKey\<close>. Then the run settles whatever the network does (also
  when the request would never settle), the content area of the display element holds
  exactly the cached fragment, no URL has been fetched, and the storage is as it was.
\<close>

theorem warm_cache_is_rendered_without_fetch:
  assumes "engineWritten (localStorage b)"
    and "localStorage b cacheKey = Some c"
  shows "\<exists>b'.
           fetchDataAndDisplay net storageFull url elementId cacheKey f msg b = Some b'
           \<and> map_option contentHTML (document b' elementId)
               = map_option (\<lambda>el. c) (document b elementId)
           \<and> fetched b' = fetched b \<and> localStorage b' = localStorage b"
proof -
  from assms have "c \<noteq> []"
    using engineWritten_nonEmptyEntries [of "localStorage b"]
    by (auto simp: nonEmptyEntries_def)
  with assms(2) have hit: "cachedData (localStorage b) cacheKey = Some c"
    by (simp add: cachedData_def)
  show ?thesis
  proof (cases "document b elementId")
    case None
    then show ?thesis
      by (simp add: fetchDataAndDisplay_def)
  next
    case (Some el)
    with hit show ?thesis
      by (simp add: fetchDataAndDisplay_def tryBlock_def catchBlock_def
          contentHTML_hideLoader contentHTML_setContent)
  qed
qed

theorem warm_cache_is_rendered_without_fetch_witness:
  "engineWritten [''commanders-events'' \<mapsto> ''<p>WSH @ DAL</p>'']
   \<and> (\<exists>b'.
         fetchDataAndDisplay hung True eventsUrl ''teams-data'' ''commanders-events'' noData
             ''No hay partidos''
             (browserWith ''teams-data'' [''commanders-events'' \<mapsto> ''<p>WSH @ DAL</p>''])
           = Some b'
         \<and> map_option contentHTML (document b' ''teams-data'') = Some ''<p>WSH @ DAL</p>''
         \<and> fetched b' = []
         \<and> localStorage b' = [''commanders-events'' \<mapsto> ''<p>WSH @ DAL</p>''])"
proof -
  let ?store = "[''commanders-events'' \<mapsto> ''<p>WSH @ DAL</p>'']"
  let ?first = "fetchDataAndDisplay (serves (JStr ''<p>WSH @ DAL</p>'')) False eventsUrl
      ''teams-data'' ''commanders-events'' asText ''No hay partidos''
      (browserWith ''teams-data'' Map.empty)"
  have "\<exists>b1. ?first = Some b1 \<and> localStorage b1 = ?store"
    by (simp add: fetchDataAndDisplay_def tryBlock_def cachedData_def retrieve_serves
        processData_def asText_def display_def hasContent_def trim_def isWhiteSpace_def
        browserWith_def)
  then obtain b1 where b1: "?first = Some b1" "localStorage b1 = ?store"
    by blast
  have "engineWritten (localStorage (browserWith ''teams-data'' Map.empty))"
    by (simp add: browserWith_def engineWritten.fresh)
  from engineWritten.run [OF this b1(1)] b1(2) have written: "engineWritten ?store"
    by simp
  then have w: "engineWritten (localStorage (browserWith ''teams-data'' ?store))"
    by (simp add: browserWith_def)
  show ?thesis
    using warm_cache_is_rendered_without_fetch
      [OF w, of "''commanders-events''" "''<p>WSH @ DAL</p>''" hung True eventsUrl
         "''teams-data''" noData "''No hay partidos''"]
      written
    by (simp add: browserWith_def)
qed

text \<open>
  Claim C3. When the cache is cold, the network delivers JSON and the transform returns
  the empty signal (\<^verbatim>\<open>null\<close> or the empty string), the content area holds the empty
  message in a paragraph and the storage is as it was. And whenever a run leaves the
  storage changed, the transform returned a fragment that is not empty and not blank, and
  the change is that fragment stored under \<open>cacheKey\<close>.
\<close>

theorem empty_signal_renders_message_and_caches_nothing:
  "(document b elementId = Some el \<and> cachedData (localStorage b) cacheKey = None
      \<and> retrieve (net url) = Some (Inr data)
      \<and> (f data = Inr None \<or> f data = Inr (Some []))
    \<longrightarrow> (\<exists>b' el'.
           fetchDataAndDisplay net storageFull url elementId cacheKey f msg b = Some b'
           \<and> document b' elementId = Some el'
           \<and> contentHTML el' = ''<p>'' @ msg @ ''</p>''
           \<and> localStorage b' = localStorage b))
   \<and> (\<forall>b'. fetchDataAndDisplay net storageFull url elementId cacheKey f msg b = Some b'
           \<and> localStorage b' \<noteq> localStorage b
         \<longrightarrow> (\<exists>data h. retrieve (net url) = Some (Inr data) \<and> f data = Inr (Some h)
                \<and> h \<noteq> [] \<and> trim h \<noteq> []
                \<and> localStorage b' = (localStorage b)(cacheKey \<mapsto> h)))"
proof (intro conjI impI allI)
  assume a: "document b elementId = Some el \<and> cachedData (localStorage b) cacheKey = None
      \<and> retrieve (net url) = Some (Inr data)
      \<and> (f data = Inr None \<or> f data = Inr (Some []))"
  then obtain h where h: "f data = Inr h" "\<not> hasContent h"
    by (auto simp: hasContent_def)
  from a h show "\<exists>b' el'.
           fetchDataAndDisplay net storageFull url elementId cacheKey f msg b = Some b'
           \<and> document b' elementId = Some el'
           \<and> contentHTML el' = ''<p>'' @ msg @ ''</p>''
           \<and> localStorage b' = localStorage b"
    by (simp add: empty_path [where h = h] contentHTML_hideLoader contentHTML_setContent)
next
  fix b'
  assume "fetchDataAndDisplay net storageFull url elementId cacheKey f msg b = Some b'
           \<and> localStorage b' \<noteq> localStorage b"
  then show "\<exists>data h. retrieve (net url) = Some (Inr data) \<and> f data = Inr (Some h)
                \<and> h \<noteq> [] \<and> trim h \<noteq> []
                \<and> localStorage b' = (localStorage b)(cacheKey \<mapsto> h)"
    using store_written [of net storageFull url elementId cacheKey f msg b b'] by simp
qed

theorem empty_signal_renders_message_and_caches_nothing_witness:
  "(\<exists>b' el'.
      fetchDataAndDisplay (serves JNull) False contentUrl ''podcast-list'' ''podcasts-cache''
          noData ''No hay podcasts'' (browserWith ''podcast-list'' Map.empty) = Some b'
      \<and> document b' ''podcast-list'' = Some el'
      \<and> contentHTML el' = ''<p>No hay podcasts</p>''
      \<and> localStorage b' = Map.empty)
   \<and> (\<exists>b'.
      fetchDataAndDisplay (serves (JStr ''<p>a</p>'')) False contentUrl ''podcast-list''
          ''podcasts-cache'' asText ''No hay podcasts'' (browserWith ''podcast-list'' Map.empty)
        = Some b'
      \<and> localStorage b' = [''podcasts-cache'' \<mapsto> ''<p>a</p>''])"
proof -
  let ?b = "browserWith ''podcast-list'' Map.empty"
  have run: "fetchDataAndDisplay (serves (JStr ''<p>a</p>'')) False contentUrl ''podcast-list''
          ''podcasts-cache'' asText ''No hay podcasts'' ?b
     = Some (?b\<lparr>document := (document ?b)(''podcast-list'' \<mapsto>
                  hideLoader (setContent ''<p>a</p>''
                    (clearContent (hideError (showLoader pageSection))))),
               localStorage := [''podcasts-cache'' \<mapsto> ''<p>a</p>''],
               fetched := [contentUrl]\<rparr>)"
    by (simp add: fetchDataAndDisplay_def tryBlock_def cachedData_def retrieve_serves
        processData_def asText_def display_def hasContent_def trim_def isWhiteSpace_def
        catchBlock_def browserWith_def)
  have first: "\<exists>b' el'.
      fetchDataAndDisplay (serves JNull) False contentUrl ''podcast-list'' ''podcasts-cache''
          noData ''No hay podcasts'' ?b = Some b'
      \<and> document b' ''podcast-list'' = Some el'
      \<and> contentHTML el' = ''<p>No hay podcasts</p>''
      \<and> localStorage b' = Map.empty"
    using empty_signal_renders_message_and_caches_nothing
      [of ?b "''podcast-list''" pageSection "''podcasts-cache''" "serves JNull" contentUrl
          JNull noData False "''No hay podcasts''"]
    by (simp add: browserWith_def cachedData_def retrieve_serves noData_def)
  from run first show ?thesis
    by simp
qed

text \<open>
  Claim C9. A run fails to settle only when the display element exists, the cache is
  cold and the request never settles. Every run that settles (the element is missing,
  the cache is warm, the fragment or the empty message is rendered, a classified or an
  unexpected error is shown) leaves the loader of the section not visible.
\<close>

theorem loader_is_hidden_on_exit:
  "(fetchDataAndDisplay net storageFull url elementId cacheKey f msg b = None
      \<longleftrightarrow> document b elementId \<noteq> None \<and> cachedData (localStorage b) cacheKey = None
            \<and> net url = Pending)
   \<and> (\<forall>b'. fetchDataAndDisplay net storageFull url elementId cacheKey f msg b = Some b'
         \<longrightarrow> \<not> loaderVisible b' elementId)"
proof (intro conjI impI allI)
  have "retrieve (net url) = None \<longleftrightarrow> net url = Pending"
    by (cases "net url") (simp_all add: retrieve_def)
  then show "fetchDataAndDisplay net storageFull url elementId cacheKey f msg b = None
      \<longleftrightarrow> document b elementId \<noteq> None \<and> cachedData (localStorage b) cacheKey = None
            \<and> net url = Pending"
    by (auto simp: fetchDataAndDisplay_def tryBlock_def Let_def
        split: option.splits sum.splits prod.splits)
next
  fix b'
  assume run: "fetchDataAndDisplay net storageFull url elementId cacheKey f msg b = Some b'"
  show "\<not> loaderVisible b' elementId"
  proof (cases "document b elementId")
    case None
    with run show ?thesis
      by (simp add: fetchDataAndDisplay_def loaderVisible_def)
  next
    case (Some el)
    with run obtain c el2 where
      "document b' elementId
       = Some (hideLoader (catchBlock (errorMessageElement el \<noteq> None) c el2))"
      by (auto simp: fetchDataAndDisplay_def split: option.splits prod.splits)
    then show ?thesis
      using loaderHidden_hideLoader [of "catchBlock (errorMessageElement el \<noteq> None) c el2"]
      by (auto simp: loaderVisible_def split: option.splits)
  qed
qed

theorem loader_is_hidden_on_exit_witness:
  "loaderVisible (browserWith ''teams-data'' Map.empty) ''teams-data''
   \<and> (\<exists>b'. fetchDataAndDisplay offline False eventsUrl ''teams-data'' ''commanders-events''
              noData ''No hay partidos'' (browserWith ''teams-data'' Map.empty) = Some b'
           \<and> \<not> loaderVisible b' ''teams-data'')"
proof -
  let ?run = "fetchDataAndDisplay offline False eventsUrl ''teams-data'' ''commanders-events''
              noData ''No hay partidos'' (browserWith ''teams-data'' Map.empty)"
  have "?run \<noteq> None"
    using loader_is_hidden_on_exit
      [of offline False eventsUrl "''teams-data''" "''commanders-events''" noData
          "''No hay partidos''" "browserWith ''teams-data'' Map.empty"]
    by (simp add: offline_def)
  then obtain b' where b': "?run = Some b'"
    by auto
  then have "\<not> loaderVisible b' ''teams-data''"
    using loader_is_hidden_on_exit
      [of offline False eventsUrl "''teams-data''" "''commanders-events''" noData
          "''No hay partidos''" "browserWith ''teams-data'' Map.empty"]
    by simp
  moreover have "loaderVisible (browserWith ''teams-data'' Map.empty) ''teams-data''"
    by (simp add: loaderVisible_def browserWith_def pageSection_def)
  ultimately show ?thesis
    using b' by simp
qed

text \<open>
  Claim C10. When the cache is cold and the network delivers JSON, a transform result
  made of white space only is handled as \<^verbatim>\<open>null\<close> is: the run ends in the very browser
  that a transform returning \<^verbatim>\<open>null\<close> leads to, with the empty message in the content
  area and the storage as it was.
\<close>

theorem blank_fragment_is_empty_signal:
  assumes "document b elementId = Some el"
    and "cachedData (localStorage b) cacheKey = None"
    and "retrieve (net url) = Some (Inr data)"
    and "f data = Inr (Some h)"
    and "\<forall>c \<in> set h. isWhiteSpace c"
  shows "fetchDataAndDisplay net storageFull url elementId cacheKey f msg b
           = fetchDataAndDisplay net storageFull url elementId cacheKey noData msg b
         \<and> (\<exists>b' el'.
               fetchDataAndDisplay net storageFull url elementId cacheKey f msg b = Some b'
               \<and> document b' elementId = Some el'
               \<and> contentHTML el' = ''<p>'' @ msg @ ''</p>''
               \<and> localStorage b' = localStorage b)"
proof -
  from assms(5) have blank: "\<not> hasContent (Some h)"
    by (simp add: hasContent_def trim_empty_iff)
  have none: "\<not> hasContent None"
    by (simp add: hasContent_def)
  have nd: "noData data = Inr None"
    by (simp add: noData_def)
  let ?b' = "b\<lparr>document := (document b)(elementId \<mapsto>
                hideLoader (setContent (''<p>'' @ msg @ ''</p>'')
                  (clearContent (hideError (showLoader el))))),
             fetched := fetched b @ [url]\<rparr>"
  have r1: "fetchDataAndDisplay net storageFull url elementId cacheKey f msg b = Some ?b'"
    using assms(1,2,3,4) blank
    by (rule empty_path [where f = f and h = "Some h" and data = data])
  have r2: "fetchDataAndDisplay net storageFull url elementId cacheKey noData msg b = Some ?b'"
    using assms(1,2,3) nd none
    by (rule empty_path [where f = noData and h = None and data = data])
  show ?thesis
    unfolding r1 r2 by (simp add: contentHTML_hideLoader contentHTML_setContent)
qed

theorem blank_fragment_is_empty_signal_witness:
  "list_all isWhiteSpace (toString (JStr [CHR 0x20, CHR 0x0A, CHR 0x09]))
   \<and> (\<exists>b' el'.
         fetchDataAndDisplay (serves (JStr [CHR 0x20, CHR 0x0A, CHR 0x09])) False contentUrl
             ''podcast-list'' ''podcasts-cache'' asText ''No hay podcasts''
             (browserWith ''podcast-list'' Map.empty) = Some b'
         \<and> document b' ''podcast-list'' = Some el'
         \<and> contentHTML el' = ''<p>No hay podcasts</p>''
         \<and> localStorage b' = Map.empty)"
proof -
  have blank: "\<forall>c \<in> set [CHR 0x20, CHR 0x0A, CHR 0x09]. isWhiteSpace c"
    by (simp add: isWhiteSpace_def)
  have "\<exists>b' el'.
         fetchDataAndDisplay (serves (JStr [CHR 0x20, CHR 0x0A, CHR 0x09])) False contentUrl
             ''podcast-list'' ''podcasts-cache'' asText ''No hay podcasts''
             (browserWith ''podcast-list'' Map.empty) = Some b'
         \<and> document b' ''podcast-list'' = Some el'
         \<and> contentHTML el' = ''<p>'' @ ''No hay podcasts'' @ ''</p>''
         \<and> localStorage b' = localStorage (browserWith ''podcast-list'' Map.empty)"
    using blank_fragment_is_empty_signal
      [where b = "browserWith ''podcast-list'' Map.empty" and elementId = "''podcast-list''"
         and el = pageSection and cacheKey = "''podcasts-cache''"
         and net = "serves (JStr [CHR 0x20, CHR 0x0A, CHR 0x09])" and url = contentUrl
         and data = "JStr [CHR 0x20, CHR 0x0A, CHR 0x09]" and f = asText
         and h = "[CHR 0x20, CHR 0x0A, CHR 0x09]" and storageFull = False
         and msg = "''No hay podcasts''", THEN conjunct2]
      blank
    by (simp add: browserWith_def cachedData_def retrieve_serves asText_def)
  with blank show ?thesis
    by (simp add: browserWith_def list_all_iff)
qed

section \<open>Properties of the standings normalizer\<close>

lemma truthy_not_nullish: "truthy v \<Longrightarrow> \<not> nullish v"
  by (cases v) (simp_all add: nullish_def)

lemma getMember_truthy: "truthy v \<Longrightarrow> getMember v k = Inr (member v k)"
  by (simp add: getMember_def truthy_not_nullish)

lemma member_JArr_object: "member v k = JArr xs \<Longrightarrow> \<exists>kvs. v = JObj kvs"
  by (cases v) (simp_all split: if_splits)

lemma member_type_object: "member v ''type'' = JStr s \<Longrightarrow> \<exists>kvs. v = JObj kvs"
  by (cases v) (simp_all split: if_splits)

lemma findE_append:
  assumes "list_all (\<lambda>x. p x = Inr False) pre" and "p x = Inr True"
  shows "findE p (pre @ x # post) = Inr x"
  using assms by (induction pre) simp_all

lemma someE_isNamedWins:
  assumes "list_all (\<lambda>s. \<not> nullish s) stats"
  shows "someE isNamedWins stats = Inr (winsEntryPresent stats)"
  using assms
  by (induction stats) (simp_all add: isNamedWins_def getMember_def winsEntryPresent_def)

lemma summaryMatch_11_5_1:
  "summaryMatch ''11-5-1'' = Some (JStr ''11'', JStr ''5'', JStr ''1'')"
  by code_simp

lemma parsed_11_5_1:
  "parseIntOrZero (JStr ''11'') = 11 \<and> parseIntOrZero (JStr ''5'') = 5
   \<and> parseIntOrZero (JStr ''1'') = 1"
  by code_simp

lemma line_11_5_1:
  "standingsLine 11 5 1 ''Summary String''
   = ''<p>Washington Commanders: 11V - 5D - 1E (Source: Summary String)</p>''"
  by code_simp

text \<open>
  Claim C4. Let no record come from the nested groups, and let \<^verbatim>\<open>record.items\<close> be a list
  whose first total or overall item has type \<^verbatim>\<open>total\<close> and summary \<^verbatim>\<open>11-5-1\<close>. Then the
  summary matches with the groups 11, 5 and 1, they parse to the numbers 11, 5 and 1, and
  the normalizer returns the line of the Washington Commanders with
  \<^verbatim>\<open>11V - 5D - 1E\<close>.
\<close>

theorem total_item_11_5_1:
  assumes "attempt1 data = Inr r0" and "\<not> truthy r0"
    and "member (member data ''record'') ''items'' = JArr (pre @ item # post)"
    and "list_all (\<lambda>x. isTotalItem x = Inr False) pre"
    and "member item ''type'' = JStr ''total''"
    and "member item ''summary'' = JStr ''11-5-1''"
  shows "summaryMatch (toString (member item ''summary''))
           = Some (JStr ''11'', JStr ''5'', JStr ''1'')
         \<and> parseIntOrZero (JStr ''11'') = 11 \<and> parseIntOrZero (JStr ''5'') = 5
         \<and> parseIntOrZero (JStr ''1'') = 1
         \<and> processStandingsData data = Inr (Some (standingsLine 11 5 1 ''Summary String''))
         \<and> standingsLine 11 5 1 ''Summary String''
             = ''<p>Washington Commanders: 11V - 5D - 1E (Source: Summary String)</p>''"
proof -
  from assms(3) obtain rec where rec: "member data ''record'' = JObj rec"
    using member_JArr_object by blast
  then obtain kvs where data: "data = JObj kvs"
    by (cases data) (simp_all split: if_splits)
  from assms(5) obtain ikvs where item: "item = JObj ikvs"
    using member_type_object by blast
  have "isTotalItem item = Inr True"
    using assms(5) item by (simp add: isTotalItem_def nullish_def)
  with assms(4) have found: "findE isTotalItem (pre @ item # post) = Inr item"
    by (rule findE_append)
  have tr: "findTeamRecord data = Inr item"
    using assms(1,2,3) rec found by (simp add: findTeamRecord_def)
  have "fromSummary item = Some (standingsLine 11 5 1 ''Summary String'')"
    using assms(6) by (simp add: fromSummary_def summaryMatch_11_5_1 parsed_11_5_1)
  then have "extractRecord item = Inr (Some (standingsLine 11 5 1 ''Summary String''))"
    by (simp add: extractRecord_def)
  with tr data item
  have "processStandingsData data = Inr (Some (standingsLine 11 5 1 ''Summary String''))"
    by (simp add: processStandingsData_def)
  then show ?thesis
    using assms(6) by (simp add: summaryMatch_11_5_1 parsed_11_5_1 line_11_5_1)
qed

theorem total_item_11_5_1_witness:
  "processStandingsData teamStandings
   = Inr (Some ''<p>Washington Commanders: 11V - 5D - 1E (Source: Summary String)</p>'')"
proof -
  have a: "attempt1 teamStandings = Inr JUndefined"
    by (simp add: attempt1_def teamStandings_def)
  have i: "member (member teamStandings ''record'') ''items'' = JArr ([] @ totalItem # [])"
    by (simp add: teamStandings_def)
  have t: "member totalItem ''type'' = JStr ''total''"
    by (simp add: totalItem_def)
  have s: "member totalItem ''summary'' = JStr ''11-5-1''"
    by (simp add: totalItem_def)
  show ?thesis
    using total_item_11_5_1 [OF a _ i _ t s] by simp
qed

text \<open>
  Claim C2 at the input \<open>shadowedRecords\<close>: the \<^verbatim>\<open>record.items\<close> list is present and
  holds no total item, the \<^verbatim>\<open>records\<close> list holds one. The normalizer returns \<^verbatim>\<open>null\<close>;
  on the same \<^verbatim>\<open>records\<close> list alone it returns the line.
\<close>

theorem records_not_tried_after_items:
  "processStandingsData shadowedRecords = Inr None
   \<and> processStandingsData recordsOnly
       = Inr (Some ''<p>Washington Commanders: 11V - 5D - 1E (Source: Summary String)</p>'')"
  by code_simp

text \<open>In general: once \<^verbatim>\<open>record.items\<close> is a non-empty list without a total or overall
  item, the result is \<^verbatim>\<open>null\<close>, whatever \<^verbatim>\<open>records\<close> holds.\<close>

lemma items_without_total_give_null:
  assumes "attempt1 data = Inr r0" and "\<not> truthy r0"
    and "member (member data ''record'') ''items'' = JArr (item # items)"
    and "list_all (\<lambda>x. isTotalItem x = Inr False) (item # items)"
  shows "processStandingsData data = Inr None"
proof -
  from assms(3) obtain rec where rec: "member data ''record'' = JObj rec"
    using member_JArr_object by blast
  then obtain kvs where data: "data = JObj kvs"
    by (cases data) (simp_all split: if_splits)
  have "findE isTotalItem xs = Inr JUndefined" if "list_all (\<lambda>x. isTotalItem x = Inr False) xs" for xs
    using that by (induction xs) simp_all
  with assms(4) have "findE isTotalItem (item # items) = Inr JUndefined"
    by blast
  then have "findTeamRecord data = Inr JUndefined"
    using assms(1,2,3) rec by (simp add: findTeamRecord_def)
  with data show ?thesis
    by (simp add: processStandingsData_def)
qed

lemma find_isStat:
  assumes "find (isStat name) stats = Some s"
  shows "findFirst (isStat name) stats = s \<and> truthy s"
proof -
  from assms have "isStat name s"
    by (auto simp: find_Some_iff)
  then show ?thesis
    using assms by (simp add: findFirst_def isStat_def)
qed

lemma getStatValue_found:
  assumes "find (isStat name) stats = Some s"
  shows "getStatValue stats name = Inr (statNumber (member s ''value''))"
proof -
  from assms have s: "findFirst (isStat name) stats = s" "truthy s"
    using find_isStat by auto
  show ?thesis
    by (cases "member s ''value''")
      (simp_all add: getStatValue_def s getMember_truthy statNumber_def)
qed

text \<open>No stat found: \<^verbatim>\<open>getStatValue\<close> throws.\<close>

lemma getStatValue_missing:
  assumes "find (isStat name) stats = None"
  shows "getStatValue stats name = Inl TypeError"
  using assms by (simp add: getStatValue_def findFirst_def getMember_def nullish_def)

text \<open>
  Claim C5, as amended. Let the record object give no line from its summary, and let its
  stats list hold no \<^verbatim>\<open>null\<close> and an entry for each of wins, losses and ties, found by
  name or by abbreviation. Then the stats fallback is accepted, with the three values in
  the line, if and only if one of the values is positive or an entry named \<^verbatim>\<open>wins\<close> is
  present; otherwise the normalizer returns \<^verbatim>\<open>null\<close>.
\<close>

theorem stats_fallback_accepted_iff:
  assumes "fromSummary teamRecord = None"
    and "member teamRecord ''stats'' = JArr stats"
    and "list_all (\<lambda>s. \<not> nullish s) stats"
    and "find (isStat ''wins'') stats = Some w"
    and "find (isStat ''losses'') stats = Some l"
    and "find (isStat ''ties'') stats = Some t"
  shows "extractRecord teamRecord =
     (if 0 < statNumber (member w ''value'') \<or> 0 < statNumber (member l ''value'')
         \<or> 0 < statNumber (member t ''value'') \<or> winsEntryPresent stats
      then Inr (Some (standingsLine (statNumber (member w ''value''))
                        (statNumber (member l ''value'')) (statNumber (member t ''value''))
                        ''Stats Array''))
      else Inr None)"
  using assms(1,2)
  by (simp add: extractRecord_def fromStats_def getStatValue_found [OF assms(4)]
      getStatValue_found [OF assms(5)] getStatValue_found [OF assms(6)]
      someE_isNamedWins [OF assms(3)])

theorem stats_fallback_accepted_iff_witness:
  "winsEntryPresent (elems (member zeroStats ''stats''))
   \<and> extractRecord zeroStats
       = Inr (Some ''<p>Washington Commanders: 0V - 0D - 0E (Source: Stats Array)</p>'')"
proof -
  let ?stats = "[stat ''name'' ''wins'' 0, stat ''name'' ''losses'' 0, stat ''name'' ''ties'' 0]"
  have s: "fromSummary zeroStats = None"
    by code_simp
  have m: "member zeroStats ''stats'' = JArr ?stats"
    by (simp add: zeroStats_def)
  have n: "list_all (\<lambda>s. \<not> nullish s) ?stats"
    by (simp add: stat_def nullish_def)
  have w: "find (isStat ''wins'') ?stats = Some (stat ''name'' ''wins'' 0)"
    by code_simp
  have l: "find (isStat ''losses'') ?stats = Some (stat ''name'' ''losses'' 0)"
    by code_simp
  have t: "find (isStat ''ties'') ?stats = Some (stat ''name'' ''ties'' 0)"
    by code_simp
  have p: "winsEntryPresent ?stats"
    by code_simp
  have line: "standingsLine 0 0 0 ''Stats Array''
              = ''<p>Washington Commanders: 0V - 0D - 0E (Source: Stats Array)</p>''"
    by code_simp
  have v: "statNumber (member (stat ''name'' n 0) ''value'') = 0" for n
    by (simp add: stat_def statNumber_def)
  show ?thesis
    using stats_fallback_accepted_iff [OF s m n w l t] p
    by (simp add: v line m)
qed

text \<open>
  Claim C5 as stated fails on stats known by their abbreviations. On \<open>abbreviatedStats\<close>
  no entry of the list is named \<^verbatim>\<open>wins\<close>, and the fallback is accepted all the same, on
  the positive values. On \<open>zeroAbbreviatedStats\<close> the entry for wins is found, with the
  value zero, and the fallback is not accepted.
\<close>

theorem stats_by_abbreviation:
  "\<not> winsEntryPresent (elems (member abbreviatedStats ''stats''))
   \<and> extractRecord abbreviatedStats
       = Inr (Some ''<p>Washington Commanders: 3V - 2D - 1E (Source: Stats Array)</p>'')
   \<and> getStatValue (elems (member zeroAbbreviatedStats ''stats'')) ''wins'' = Inr 0
   \<and> extractRecord zeroAbbreviatedStats = Inr None"
  by code_simp

text \<open>Wins and losses without a ties entry: \<^verbatim>\<open>getStatValue('ties')\<close> throws.\<close>

lemma stats_without_ties_throw:
  "winsEntryPresent (elems (member statsWithoutTies ''stats''))
   \<and> extractRecord statsWithoutTies = Inl TypeError"
  by code_simp

section \<open>Properties of templates\<close>

lemma template_converts:
  assumes "list_all converts ps"
  shows "template ps = Inr (concat (map pieceText ps))"
  using assms by (induction ps rule: template.induct) simp_all

lemma plain_convertible: "plain v \<Longrightarrow> convertible v"
  by (induction v rule: convertible.induct) (auto simp: list_all_iff)

lemma plain_member: "plain v \<Longrightarrow> plain (member v k)"
proof (cases v)
  case (JObj kvs)
  assume "plain v"
  with JObj show ?thesis
    by (auto simp: list_all_iff split: option.splits dest!: map_of_SomeD)
qed simp_all

lemma plain_orElse: "plain a \<Longrightarrow> plain d \<Longrightarrow> plain (orElse a d)"
  by (simp add: orElse_def)

lemma plain_andMember: "plain v \<Longrightarrow> plain (andMember v k)"
  by (simp add: andMember_def plain_member)

lemma plain_index0: "plain v \<Longrightarrow> plain (index0 v)"
proof (cases v)
  case (JObj kvs)
  assume "plain v"
  with JObj show ?thesis
    by (auto simp: list_all_iff split: option.splits dest!: map_of_SomeD)
qed (auto split: list.splits)

lemma plain_findFirst: "list_all plain xs \<Longrightarrow> plain (findFirst p xs)"
  by (auto simp: findFirst_def list_all_iff find_Some_iff split: option.splits)

lemma plain_elems: "plain v \<Longrightarrow> list_all plain (elems v)"
  by (cases v) simp_all

section \<open>Properties of the podcasts normalizer\<close>

lemma podcastItem_plain:
  assumes "\<not> nullish p" and "plain p"
  shows "podcastItem p = Inr (if hasSrc p then cardOf p else [])"
proof -
  let ?title = "orElse (member p ''title'') (JStr ''Untitled Podcast'')"
  have t: "convertible ?title"
    using assms(2) by (simp add: plain_convertible plain_member plain_orElse)
  have s: "convertible (member p ''src'')"
    using assms(2) by (simp add: plain_convertible plain_member)
  show ?thesis
  proof (cases "hasSrc p")
    case True
    then have "orElse (member p ''src'') (JStr []) = member p ''src''"
      by (simp add: hasSrc_def orElse_def)
    moreover have "list_all converts (podcastCard ?title (member p ''src''))"
      using t s by (simp add: podcastCard_def)
    ultimately show ?thesis
      using assms(1) True
      by (simp add: podcastItem_def getMember_def hasSrc_def cardOf_def template_converts)
  next
    case False
    then have "\<not> truthy (orElse (member p ''src'') (JStr []))"
      by (simp add: hasSrc_def orElse_def)
    then show ?thesis
      using assms(1) False t
      by (simp add: podcastItem_def getMember_def bindE_def)
  qed
qed

lemma mapE_podcastItem:
  assumes "list_all (\<lambda>p. \<not> nullish p \<and> plain p) ps"
  shows "mapE podcastItem ps = Inr (map (\<lambda>p. if hasSrc p then cardOf p else []) ps)"
  using assms by (induction ps) (simp_all add: podcastItem_plain)

lemma concat_cards:
  "concat (map (\<lambda>p. if hasSrc p then cardOf p else []) ps) = concat (map cardOf (filter hasSrc ps))"
  by (induction ps) simp_all

lemma processPodcasts_cards:
  assumes "member data ''podcasts'' = JArr ps"
    and "list_all (\<lambda>p. \<not> nullish p \<and> plain p) ps"
  shows "processPodcasts data
         = Inr (if ps = [] then None else Some (concat (map cardOf (filter hasSrc ps))))"
proof -
  from assms(1) obtain kvs where "data = JObj kvs"
    using member_JArr_object by blast
  then show ?thesis
    using assms by (simp add: processPodcasts_def mapE_podcastItem concat_cards)
qed

lemma cardOf_text:
  \<open>cardOf p =
     newline @ spaces 8 @ ''<div class="podcast-item">''
     @ newline @ spaces 12 @ ''<h3>''
     @ toString (orElse (member p ''title'') (JStr ''Untitled Podcast'')) @ ''</h3>''
     @ newline @ spaces 12 @ ''<audio controls aria-label="Reproducir ''
     @ toString (orElse (member p ''title'') (JStr ''Untitled Podcast'')) @ ''">''
     @ newline @ spaces 16 @ ''<source src="'' @ toString (member p ''src'')
     @ ''" type="audio/mpeg">''
     @ newline @ spaces 16 @ ''Tu navegador no soporta audio HTML5.''
     @ newline @ spaces 12 @ ''</audio>''
     @ newline @ spaces 8 @ ''</div>''
     @ newline @ spaces 4\<close>
  by (simp add: cardOf_def podcastCard_def)

text \<open>
  Claim C8, as amended. Let the podcasts list hold no \<^verbatim>\<open>null\<close> and no object with a
  property named \<^verbatim>\<open>toString\<close>. The normalizer returns the cards of the items that have
  a source, in their order, and nothing for the others (\<^verbatim>\<open>null\<close> for the empty list).
  When no item has a source the result is \<^verbatim>\<open>null\<close> or the empty string, and the engine,
  on a cold cache and with this data delivered, renders the empty message, stores nothing
  and shows no error: the error message of the section stays hidden, or is gone with
  the other children of a section that has no \<^verbatim>\<open>.data-content\<close> child.
\<close>

theorem podcasts_without_src_are_skipped:
  assumes "member data ''podcasts'' = JArr ps"
    and "list_all (\<lambda>p. \<not> nullish p \<and> plain p) ps"
  shows \<open>processPodcasts data
      = Inr (if ps = [] then None
             else Some (concat (map
               (\<lambda>p. newline @ spaces 8 @ ''<div class="podcast-item">''
                  @ newline @ spaces 12 @ ''<h3>''
                  @ toString (orElse (member p ''title'') (JStr ''Untitled Podcast''))
                  @ ''</h3>''
                  @ newline @ spaces 12 @ ''<audio controls aria-label="Reproducir ''
                  @ toString (orElse (member p ''title'') (JStr ''Untitled Podcast''))
                  @ ''">''
                  @ newline @ spaces 16 @ ''<source src="'' @ toString (member p ''src'')
                  @ ''" type="audio/mpeg">''
                  @ newline @ spaces 16 @ ''Tu navegador no soporta audio HTML5.''
                  @ newline @ spaces 12 @ ''</audio>''
                  @ newline @ spaces 8 @ ''</div>''
                  @ newline @ spaces 4)
               (filter (\<lambda>p. truthy (member p ''src'')) ps))))
     \<and> (list_all (\<lambda>p. \<not> truthy (member p ''src'')) ps \<and> document b elementId = Some el
          \<and> cachedData (localStorage b) cacheKey = None
          \<and> retrieve (net url) = Some (Inr data)
        \<longrightarrow> processPodcasts data = Inr (if ps = [] then None else Some [])
            \<and> (\<exists>b' el'.
                 fetchDataAndDisplay net storageFull url elementId cacheKey processPodcasts
                     msg b = Some b'
                 \<and> document b' elementId = Some el'
                 \<and> contentHTML el' = ''<p>'' @ msg @ ''</p>''
                 \<and> errorMessageElement el'
                     = (if hasDataContent el
                        then map_option (\<lambda>(t, h). (t, True)) (errorMessageElement el)
                        else None)
                 \<and> localStorage b' = localStorage b))\<close>
proof (intro conjI impI)
  have cards: "processPodcasts data
         = Inr (if ps = [] then None else Some (concat (map cardOf (filter hasSrc ps))))"
    using assms by (rule processPodcasts_cards)
  have same: "map cardOf (filter hasSrc ps)
      = map (\<lambda>p. cardOf p) (filter (\<lambda>p. truthy (member p ''src'')) ps)"
    by (simp add: hasSrc_def [abs_def])
  show \<open>processPodcasts data
      = Inr (if ps = [] then None
             else Some (concat (map
               (\<lambda>p. newline @ spaces 8 @ ''<div class="podcast-item">''
                  @ newline @ spaces 12 @ ''<h3>''
                  @ toString (orElse (member p ''title'') (JStr ''Untitled Podcast''))
                  @ ''</h3>''
                  @ newline @ spaces 12 @ ''<audio controls aria-label="Reproducir ''
                  @ toString (orElse (member p ''title'') (JStr ''Untitled Podcast''))
                  @ ''">''
                  @ newline @ spaces 16 @ ''<source src="'' @ toString (member p ''src'')
                  @ ''" type="audio/mpeg">''
                  @ newline @ spaces 16 @ ''Tu navegador no soporta audio HTML5.''
                  @ newline @ spaces 12 @ ''</audio>''
                  @ newline @ spaces 8 @ ''</div>''
                  @ newline @ spaces 4)
               (filter (\<lambda>p. truthy (member p ''src'')) ps))))\<close>
    unfolding cards same cardOf_text ..
  assume a: "list_all (\<lambda>p. \<not> truthy (member p ''src'')) ps \<and> document b elementId = Some el
          \<and> cachedData (localStorage b) cacheKey = None
          \<and> retrieve (net url) = Some (Inr data)"
  then have "filter hasSrc ps = []"
    by (auto simp: hasSrc_def list_all_iff filter_empty_conv)
  with cards show empty: "processPodcasts data = Inr (if ps = [] then None else Some [])"
    by simp
  have "\<not> hasContent (if ps = [] then None else Some [])"
    by (simp add: hasContent_def)
  with a empty
  have run: "fetchDataAndDisplay net storageFull url elementId cacheKey processPodcasts msg b =
     Some (b\<lparr>document := (document b)(elementId \<mapsto>
                hideLoader (setContent (''<p>'' @ msg @ ''</p>'')
                  (clearContent (hideError (showLoader el))))),
             fetched := fetched b @ [url]\<rparr>)"
    by (intro empty_path [where data = data and h = "if ps = [] then None else Some []"])
      simp_all
  show "\<exists>b' el'.
                 fetchDataAndDisplay net storageFull url elementId cacheKey processPodcasts
                     msg b = Some b'
                 \<and> document b' elementId = Some el'
                 \<and> contentHTML el' = ''<p>'' @ msg @ ''</p>''
                 \<and> errorMessageElement el'
                     = (if hasDataContent el
                        then map_option (\<lambda>(t, h). (t, True)) (errorMessageElement el)
                        else None)
                 \<and> localStorage b' = localStorage b"
    unfolding run
    by (simp add: hideLoader_def setContent_def clearContent_def hideError_def showLoader_def)
qed

theorem podcasts_without_src_are_skipped_witness:
  \<open>processPodcasts mixedPodcasts
     = Inr (Some (newline @ spaces 8 @ ''<div class="podcast-item">''
                  @ newline @ spaces 12 @ ''<h3>Episodio 2</h3>''
                  @ newline @ spaces 12 @ ''<audio controls aria-label="Reproducir Episodio 2">''
                  @ newline @ spaces 16 @ ''<source src="ep2.mp3" type="audio/mpeg">''
                  @ newline @ spaces 16 @ ''Tu navegador no soporta audio HTML5.''
                  @ newline @ spaces 12 @ ''</audio>''
                  @ newline @ spaces 8 @ ''</div>''
                  @ newline @ spaces 4))
   \<and> processPodcasts podcastsWithoutSrc = Inr (Some [])
   \<and> (\<exists>b' el'.
         fetchDataAndDisplay (serves podcastsWithoutSrc) False contentUrl ''podcast-list''
             ''podcasts-cache'' processPodcasts ''No hay podcasts''
             (browserWith ''podcast-list'' Map.empty) = Some b'
         \<and> document b' ''podcast-list'' = Some el'
         \<and> contentHTML el' = ''<p>No hay podcasts</p>''
         \<and> map_option snd (errorMessageElement el') = Some True
         \<and> localStorage b' = Map.empty)\<close>
proof -
  let ?mixed = "[JObj [(''title'', JStr ''Episodio 1'')],
                 JObj [(''title'', JStr ''Episodio 2''), (''src'', JStr ''ep2.mp3'')]]"
  let ?ps = "[JObj [(''title'', JStr ''Episodio 1'')],
              JObj [(''title'', JStr ''Episodio 2''), (''src'', JStr [])]]"
  have mm: "member mixedPodcasts ''podcasts'' = JArr ?mixed"
    by (simp add: mixedPodcasts_def)
  have mn: "list_all (\<lambda>p. \<not> nullish p \<and> plain p) ?mixed"
    by (simp add: nullish_def)
  have m: "member podcastsWithoutSrc ''podcasts'' = JArr ?ps"
    by (simp add: podcastsWithoutSrc_def)
  have n: "list_all (\<lambda>p. \<not> nullish p \<and> plain p) ?ps"
    by (simp add: nullish_def)
  have first: \<open>processPodcasts mixedPodcasts
     = Inr (Some (newline @ spaces 8 @ ''<div class="podcast-item">''
                  @ newline @ spaces 12 @ ''<h3>Episodio 2</h3>''
                  @ newline @ spaces 12 @ ''<audio controls aria-label="Reproducir Episodio 2">''
                  @ newline @ spaces 16 @ ''<source src="ep2.mp3" type="audio/mpeg">''
                  @ newline @ spaces 16 @ ''Tu navegador no soporta audio HTML5.''
                  @ newline @ spaces 12 @ ''</audio>''
                  @ newline @ spaces 8 @ ''</div>''
                  @ newline @ spaces 4))\<close>
    using podcasts_without_src_are_skipped [OF mm mn, THEN conjunct1]
    by (simp add: orElse_def)
  have rest: "processPodcasts podcastsWithoutSrc = Inr (Some [])
   \<and> (\<exists>b' el'.
         fetchDataAndDisplay (serves podcastsWithoutSrc) False contentUrl ''podcast-list''
             ''podcasts-cache'' processPodcasts ''No hay podcasts''
             (browserWith ''podcast-list'' Map.empty) = Some b'
         \<and> document b' ''podcast-list'' = Some el'
         \<and> contentHTML el' = ''<p>No hay podcasts</p>''
         \<and> map_option snd (errorMessageElement el') = Some True
         \<and> localStorage b' = Map.empty)"
    using podcasts_without_src_are_skipped
      [OF m n, where b = "browserWith ''podcast-list'' Map.empty"
         and elementId = "''podcast-list''" and el = pageSection
         and cacheKey = "''podcasts-cache''" and net = "serves podcastsWithoutSrc"
         and url = contentUrl and storageFull = False and msg = "''No hay podcasts''",
         THEN conjunct2]
    by (auto simp: browserWith_def cachedData_def retrieve_serves pageSection_def)
  from first rest show ?thesis
    by blast
qed

text \<open>
  Claim C8 as stated fails on \<open>podcastsWithNull\<close> and on \<open>podcastsWithToString\<close>: no item
  of either list has a source, and the normalizer throws, on reading the title of
  \<^verbatim>\<open>null\<close> and on the warning that interpolates a title that does not convert. The engine
  shows the error message of a failed transform.
\<close>

theorem podcasts_with_null_item_throw:
  "processPodcasts podcastsWithNull = Inl TypeError
   \<and> map_option errorMessageElement
       (elementAfter
          (fetchDataAndDisplay (serves podcastsWithNull) False contentUrl ''podcast-list''
             ''podcasts-cache'' processPodcasts ''No hay podcasts''
             (browserWith ''podcast-list'' Map.empty))
          ''podcast-list'')
     = Some (Some (''There was an issue preparing the data for display.'', False))
   \<and> processPodcasts podcastsWithToString = Inl TypeError"
proof -
  have n: "processPodcasts podcastsWithNull = Inl TypeError"
    by code_simp
  have t: "processPodcasts podcastsWithToString = Inl TypeError"
    by code_simp
  show ?thesis
    using n t
    by (simp add: elementAfter_def fetchDataAndDisplay_def tryBlock_def cachedData_def
        retrieve_serves processData_def catchBlock_def showError_def browserWith_def
        pageSection_def hideLoader_def setContent_def clearContent_def hideError_def
        showLoader_def)
qed

section \<open>Properties of the events normalizer\<close>


lemma eventDateStr_plain:
  assumes "plain event"
  shows "eventDateStr formatDate event
         = Inr (case (if truthy (member event ''date'') then formatDate (member event ''date'')
                      else None) of Some s \<Rightarrow> s | None \<Rightarrow> ''Date N/A'')"
  using assms by (simp add: eventDateStr_def plain_convertible plain_member)

lemma formatTeamInfo_plain:
  assumes "plain teamData"
  shows "\<exists>display. formatTeamInfo teamData = Inr display"
proof -
  have "plain (member (member teamData ''team'') k)" for k
    using assms by (simp add: plain_member)
  then show ?thesis
    by (simp add: formatTeamInfo_def Let_def template_converts plain_convertible plain_orElse)
qed

lemma plain_competitionOf: "plain event \<Longrightarrow> plain (competitionOf event)"
  by (simp add: competitionOf_def plain_member plain_index0)

lemma plain_competitorsOf: "plain event \<Longrightarrow> plain (competitorsOf event)"
  by (simp add: competitorsOf_def plain_andMember plain_competitionOf)

lemma plain_statusType: "plain c \<Longrightarrow> plain (statusType c k)"
  by (simp add: statusType_def plain_andMember plain_member)

lemma scoreOf_plain:
  assumes "plain competition" and "plain home" and "plain away"
  shows "scoreOf competition home away
     = Inr (if truthy (statusType competition ''completed'')
            then JStr ((if truthy (member home ''score'') then toString (member home ''score'')
                        else ''0'') @ '' - ''
                       @ (if truthy (member away ''score'') then toString (member away ''score'')
                          else ''0''))
            else if truthy (statusType competition ''description'')
            then statusType competition ''description''
            else JStr ''Pendiente'')"
proof -
  have "convertible (orElse (member t ''score'') (JStr ''0''))" if "plain t" for t
    using that by (simp add: plain_convertible plain_orElse plain_member)
  then show ?thesis
    using assms by (simp add: scoreOf_def template_converts bindE_def orElse_def)
qed




lemma trim_nonblank:
  assumes "\<not> isWhiteSpace c"
  shows "trim (c # s) \<noteq> []"
  using assms trim_empty_iff [of "c # s"] by auto

lemma processEvent_invalid: "\<not> validEvent e \<Longrightarrow> processEvent formatDate lessThan2 e = Inr []"
  by (simp add: processEvent_def)

lemma fallback_lines:
  assumes "plain e"
  shows "template (competitionIncomplete e dateStr)
         = Inr (''<p>Evento: '' @ toString (orElse (member e ''name'') (JStr ''Unnamed Event''))
                @ '' - Fecha: '' @ dateStr
                @ '' - Datos de competici'' @ [CHR 0xF3] @ ''n incompletos</p>'')"
    and "template (teamIncomplete e dateStr)
         = Inr (''<p>Evento: '' @ toString (orElse (member e ''name'') (JStr ''Unnamed Event''))
                @ '' - Fecha: '' @ dateStr @ '' - Datos de equipo incompletos</p>'')"
proof -
  have "convertible (orElse (member e ''name'') (JStr ''Unnamed Event''))"
    using assms by (simp add: plain_convertible plain_orElse plain_member)
  then show "template (competitionIncomplete e dateStr)
         = Inr (''<p>Evento: '' @ toString (orElse (member e ''name'') (JStr ''Unnamed Event''))
                @ '' - Fecha: '' @ dateStr
                @ '' - Datos de competici'' @ [CHR 0xF3] @ ''n incompletos</p>'')"
    and "template (teamIncomplete e dateStr)
         = Inr (''<p>Evento: '' @ toString (orElse (member e ''name'') (JStr ''Unnamed Event''))
                @ '' - Fecha: '' @ dateStr @ '' - Datos de equipo incompletos</p>'')"
    by (simp_all add: competitionIncomplete_def teamIncomplete_def)
qed

lemma processEvent_valid:
  assumes "validEvent e" and "wellFormedEvent e"
  shows "\<exists>rest. processEvent formatDate lessThan2 e = Inr (''<p>'' @ rest)
     \<and> (\<not> competitionComplete lessThan2 e \<longrightarrow>
            ''<p>'' @ rest
            = ''<p>Evento: '' @ toString (orElse (member e ''name'') (JStr ''Unnamed Event''))
              @ '' - Fecha: ''
              @ (case (if truthy (member e ''date'') then formatDate (member e ''date'')
                       else None) of Some s \<Rightarrow> s | None \<Rightarrow> ''Date N/A'')
              @ '' - Datos de competici'' @ [CHR 0xF3] @ ''n incompletos</p>'')
     \<and> (competitionComplete lessThan2 e \<and> \<not> teamsComplete (homeOf e) (awayOf e) \<longrightarrow>
            ''<p>'' @ rest
            = ''<p>Evento: '' @ toString (orElse (member e ''name'') (JStr ''Unnamed Event''))
              @ '' - Fecha: ''
              @ (case (if truthy (member e ''date'') then formatDate (member e ''date'')
                       else None) of Some s \<Rightarrow> s | None \<Rightarrow> ''Date N/A'')
              @ '' - Datos de equipo incompletos</p>'')"
proof -
  from assms(2) have p: "plain e"
    by (simp add: wellFormedEvent_def)
  note date = eventDateStr_plain [OF p, of formatDate]
  show ?thesis
  proof (cases "competitionComplete lessThan2 e")
    case False
    with assms(1) show ?thesis
      by (simp add: processEvent_def bindE_def date fallback_lines [OF p])
  next
    case True
    then have "truthy (competitorsOf e)"
      by (simp add: competitionComplete_def)
    with assms(2) have arr: "isArray (competitorsOf e)"
      by (simp add: wellFormedEvent_def)
    show ?thesis
    proof (cases "teamsComplete (homeOf e) (awayOf e)")
      case False
      with True arr assms(1) show ?thesis
        by (simp add: processEvent_def bindE_def date fallback_lines [OF p] homeOf_def
            awayOf_def)
    next
      case t: True
      have "list_all plain (elems (competitorsOf e))"
        using p by (simp add: plain_elems plain_competitorsOf)
      then have ph: "plain (homeOf e)" and pa: "plain (awayOf e)"
        by (simp_all add: homeOf_def awayOf_def plain_findFirst)
      obtain hd where hd: "formatTeamInfo (homeOf e) = Inr hd"
        using formatTeamInfo_plain [OF ph] by blast
      obtain ad where ad: "formatTeamInfo (awayOf e) = Inr ad"
        using formatTeamInfo_plain [OF pa] by blast
      have pc: "plain (competitionOf e)"
        using p by (rule plain_competitionOf)
      have "plain (statusType (competitionOf e) ''description'')"
        using pc by (rule plain_statusType)
      then have "\<exists>rest. processEvent formatDate lessThan2 e = Inr (''<p>'' @ rest)"
        using True arr assms(1) t hd ad
        by (simp add: processEvent_def bindE_def date homeOf_def [symmetric] Let_def
            awayOf_def [symmetric] scoreOf_plain [OF pc ph pa] plain_convertible)
      with True t show ?thesis
        by blast
    qed
  qed
qed

lemma mapE_total:
  assumes "list_all (\<lambda>x. g x = Inr (h x)) xs"
  shows "mapE g xs = Inr (map h xs)"
  using assms by (induction xs) simp_all

lemma filter_map_lines:
  assumes "list_all (\<lambda>x. h x \<noteq> [] \<longleftrightarrow> P x) xs"
  shows "filter (\<lambda>l. l \<noteq> []) (map h xs) = map h (filter P xs)"
  using assms by (induction xs) auto

lemma list_all2_map_self:
  assumes "\<forall>x \<in> set xs. P x (f x)"
  shows "list_all2 P xs (map f xs)"
  using assms by (simp add: list_all2_map2 list_all2_same)

text \<open>
  Claim C7. Take an events list in which no object holds a property named \<^verbatim>\<open>toString\<close>
  and the competitors of every entry are a list when there are any. The normalizer
  returns one non-empty line for each entry that is an object, in order, and nothing for
  the other entries: its result is the lines joined, or \<^verbatim>\<open>null\<close> when there is none. An
  event without a competition, or with fewer than two competitors, gives the line
  \<^verbatim>\<open>Evento\<close>, name, \<^verbatim>\<open>Fecha\<close>, date and the incomplete competition; an event without a
  home or an away team gives the line \<^verbatim>\<open>Evento\<close>, name, \<^verbatim>\<open>Fecha\<close>, date and the incomplete
  team.
\<close>

theorem one_line_per_valid_event:
  assumes "member data ''events'' = JArr events"
    and "list_all wellFormedEvent events"
  shows "\<exists>lines.
           length lines = length (filter validEvent events)
         \<and> list_all2
             (\<lambda>e line. processEvent formatDate lessThan2 e = Inr line \<and> line \<noteq> []
                \<and> (\<not> competitionComplete lessThan2 e \<longrightarrow>
                      line = ''<p>Evento: ''
                        @ toString (orElse (member e ''name'') (JStr ''Unnamed Event''))
                        @ '' - Fecha: ''
                        @ (case (if truthy (member e ''date'') then formatDate (member e ''date'')
                                 else None) of Some s \<Rightarrow> s | None \<Rightarrow> ''Date N/A'')
                        @ '' - Datos de competici'' @ [CHR 0xF3] @ ''n incompletos</p>'')
                \<and> (competitionComplete lessThan2 e \<and> \<not> teamsComplete (homeOf e) (awayOf e) \<longrightarrow>
                      line = ''<p>Evento: ''
                        @ toString (orElse (member e ''name'') (JStr ''Unnamed Event''))
                        @ '' - Fecha: ''
                        @ (case (if truthy (member e ''date'') then formatDate (member e ''date'')
                                 else None) of Some s \<Rightarrow> s | None \<Rightarrow> ''Date N/A'')
                        @ '' - Datos de equipo incompletos</p>''))
             (filter validEvent events) lines
         \<and> processTeamEventsData formatDate lessThan2 data
             = Inr (if lines = [] then None else Some (concat lines))"
proof -
  define ln where
    "ln e = (case processEvent formatDate lessThan2 e of Inr l \<Rightarrow> l | Inl x \<Rightarrow> [])" for e
  define fallback where
    "fallback e tail = ''<p>Evento: ''
        @ toString (orElse (member e ''name'') (JStr ''Unnamed Event''))
        @ '' - Fecha: ''
        @ (case (if truthy (member e ''date'') then formatDate (member e ''date'')
                 else None) of Some s \<Rightarrow> s | None \<Rightarrow> ''Date N/A'')
        @ tail" for e tail
  have inv: "ln e = []" if "\<not> validEvent e" for e
    using that by (simp add: ln_def processEvent_invalid)
  have val: "\<exists>rest. processEvent formatDate lessThan2 e = Inr (ln e) \<and> ln e = ''<p>'' @ rest
     \<and> (\<not> competitionComplete lessThan2 e \<longrightarrow>
           ln e = fallback e ('' - Datos de competici'' @ [CHR 0xF3] @ ''n incompletos</p>''))
     \<and> (competitionComplete lessThan2 e \<and> \<not> teamsComplete (homeOf e) (awayOf e) \<longrightarrow>
           ln e = fallback e '' - Datos de equipo incompletos</p>'')"
    if "validEvent e" and "wellFormedEvent e" for e
  proof -
    from processEvent_valid [OF that, of formatDate lessThan2]
    obtain rest where r: "processEvent formatDate lessThan2 e = Inr (''<p>'' @ rest)"
      and c1: "\<not> competitionComplete lessThan2 e \<longrightarrow>
                 ''<p>'' @ rest
                 = fallback e ('' - Datos de competici'' @ [CHR 0xF3] @ ''n incompletos</p>'')"
      and c2: "competitionComplete lessThan2 e \<and> \<not> teamsComplete (homeOf e) (awayOf e) \<longrightarrow>
                 ''<p>'' @ rest = fallback e '' - Datos de equipo incompletos</p>''"
      unfolding fallback_def by auto
    from r have l: "ln e = ''<p>'' @ rest"
      by (simp add: ln_def)
    show ?thesis
      unfolding l using r c1 c2 by blast
  qed
  have every: "processEvent formatDate lessThan2 e = Inr (ln e) \<and> (ln e \<noteq> [] \<longleftrightarrow> validEvent e)"
    if "wellFormedEvent e" for e
  proof (cases "validEvent e")
    case True
    with that val [of e] show ?thesis by auto
  next
    case False
    then show ?thesis using inv [of e] by (simp add: processEvent_invalid)
  qed
  from assms(2) have all: "list_all (\<lambda>e. processEvent formatDate lessThan2 e = Inr (ln e)) events"
    and ne: "list_all (\<lambda>e. ln e \<noteq> [] \<longleftrightarrow> validEvent e) events"
    using every by (auto simp: list_all_iff)
  let ?lines = "map ln (filter validEvent events)"
  have mapped: "mapE (processEvent formatDate lessThan2) events = Inr (map ln events)"
    using all by (rule mapE_total)
  have kept: "filter (\<lambda>l. l \<noteq> []) (map ln events) = ?lines"
    using ne by (rule filter_map_lines)
  have each: "list_all2
             (\<lambda>e line. processEvent formatDate lessThan2 e = Inr line \<and> line \<noteq> []
                \<and> (\<not> competitionComplete lessThan2 e \<longrightarrow>
                      line = fallback e
                        ('' - Datos de competici'' @ [CHR 0xF3] @ ''n incompletos</p>''))
                \<and> (competitionComplete lessThan2 e \<and> \<not> teamsComplete (homeOf e) (awayOf e) \<longrightarrow>
                      line = fallback e '' - Datos de equipo incompletos</p>''))
             (filter validEvent events) ?lines"
  proof (rule list_all2_map_self, rule ballI)
    fix e
    assume "e \<in> set (filter validEvent events)"
    then have "validEvent e" and "wellFormedEvent e"
      using assms(2) by (auto simp: list_all_iff)
    from val [OF this] obtain rest where "processEvent formatDate lessThan2 e = Inr (ln e)"
      and "ln e = ''<p>'' @ rest"
      and "\<not> competitionComplete lessThan2 e \<longrightarrow>
             ln e = fallback e ('' - Datos de competici'' @ [CHR 0xF3] @ ''n incompletos</p>'')"
      and "competitionComplete lessThan2 e \<and> \<not> teamsComplete (homeOf e) (awayOf e) \<longrightarrow>
             ln e = fallback e '' - Datos de equipo incompletos</p>''"
      by blast
    then show "processEvent formatDate lessThan2 e = Inr (ln e) \<and> ln e \<noteq> []
                \<and> (\<not> competitionComplete lessThan2 e \<longrightarrow>
                      ln e = fallback e
                        ('' - Datos de competici'' @ [CHR 0xF3] @ ''n incompletos</p>''))
                \<and> (competitionComplete lessThan2 e \<and> \<not> teamsComplete (homeOf e) (awayOf e) \<longrightarrow>
                      ln e = fallback e '' - Datos de equipo incompletos</p>'')"
      by simp
  qed
  have shown: "concat ?lines \<noteq> [] \<and> trim (concat ?lines) \<noteq> []" if "?lines \<noteq> []"
  proof -
    from that obtain e es where es: "filter validEvent events = e # es"
      by (cases "filter validEvent events") auto
    then have "e \<in> set (filter validEvent events)"
      by simp
    then have "validEvent e" and "wellFormedEvent e"
      using assms(2) by (auto simp: list_all_iff)
    then obtain rest where "ln e = ''<p>'' @ rest"
      using val by blast
    then have "concat ?lines = CHR ''<'' # (''p>'' @ rest @ concat (map ln es))"
      using es by simp
    moreover have "\<not> isWhiteSpace CHR ''<''"
      by (simp add: isWhiteSpace_def)
    ultimately show ?thesis
      using trim_nonblank by simp
  qed
  from assms(1) obtain kvs where "data = JObj kvs"
    using member_JArr_object by blast
  then have run: "processTeamEventsData formatDate lessThan2 data
      = (if events = [] then Inr None
         else if concat ?lines = [] \<or> trim (concat ?lines) = [] then Inr None
         else Inr (Some (concat ?lines)))"
    using assms(1) mapped
    by (cases "events = []") (simp_all add: processTeamEventsData_def Let_def kept)
  have "processTeamEventsData formatDate lessThan2 data
             = Inr (if ?lines = [] then None else Some (concat ?lines))"
  proof (cases "?lines = []")
    case True
    then show ?thesis
      unfolding run by simp
  next
    case False
    then have "events \<noteq> []"
      by auto
    with False shown show ?thesis
      unfolding run by simp
  qed
  with each show ?thesis
    unfolding fallback_def by (intro exI [of _ ?lines]) simp
qed

theorem one_line_per_valid_event_witness:
  \<open>filter validEvent (elems (member schedule ''events'')) = [finishedGame, byeWeek]
   \<and> processTeamEventsData madrid notANumber schedule
       = Inr (Some (''<p>WSH <img src="" alt="WSH logo" style="height: 20px; vertical-align: middle; display:none;"> @ TB <img src="" alt="TB logo" style="height: 20px; vertical-align: middle; display:none;"> | Fecha: 08/09/2024, 22:25 | Estado: 37 - 0</p>''
                    @ ''<p>Evento: Bye - Fecha: Date N/A - Datos de competici'' @ [CHR 0xF3]
                    @ ''n incompletos</p>''))\<close>
proof -
  let ?events = "[finishedGame, JNull, byeWeek, JNum 3]"
  have m: "member schedule ''events'' = JArr ?events"
    by (simp add: schedule_def)
  have c: "competitorsOf finishedGame = JArr [buccaneers, commanders]"
    by (simp add: competitorsOf_def competitionOf_def andMember_def finishedGame_def)
  have b: "\<not> truthy (competitionOf byeWeek)"
    by (simp add: competitionOf_def byeWeek_def)
  then have cb: "\<not> truthy (competitorsOf byeWeek)"
    by (simp add: competitorsOf_def andMember_def)
  have p: "plain finishedGame" "plain byeWeek"
    by (simp_all add: finishedGame_def buccaneers_def commanders_def competitor_def byeWeek_def)
  have w: "list_all wellFormedEvent ?events"
    using c cb p by (simp add: wellFormedEvent_def competitorsOf_def competitionOf_def andMember_def)
  have v: "filter validEvent ?events = [finishedGame, byeWeek]"
    by (simp add: validEvent_def finishedGame_def byeWeek_def)
  have i: "\<not> competitionComplete notANumber byeWeek"
    using b by (simp add: competitionComplete_def)
  have game: \<open>processEvent madrid notANumber finishedGame
       = Inr ''<p>WSH <img src="" alt="WSH logo" style="height: 20px; vertical-align: middle; display:none;"> @ TB <img src="" alt="TB logo" style="height: 20px; vertical-align: middle; display:none;"> | Fecha: 08/09/2024, 22:25 | Estado: 37 - 0</p>''\<close>
    by code_simp
  have bye: "toString (orElse (member byeWeek ''name'') (JStr ''Unnamed Event'')) = ''Bye''"
    "\<not> truthy (member byeWeek ''date'')"
    by (simp_all add: byeWeek_def orElse_def)
  from one_line_per_valid_event [OF m w, of madrid notANumber]
  obtain lines where n: "length lines = length (filter validEvent ?events)"
    and each: "list_all2
             (\<lambda>e line. processEvent madrid notANumber e = Inr line \<and> line \<noteq> []
                \<and> (\<not> competitionComplete notANumber e \<longrightarrow>
                      line = ''<p>Evento: ''
                        @ toString (orElse (member e ''name'') (JStr ''Unnamed Event''))
                        @ '' - Fecha: ''
                        @ (case (if truthy (member e ''date'') then madrid (member e ''date'')
                                 else None) of Some s \<Rightarrow> s | None \<Rightarrow> ''Date N/A'')
                        @ '' - Datos de competici'' @ [CHR 0xF3] @ ''n incompletos</p>'')
                \<and> (competitionComplete notANumber e \<and> \<not> teamsComplete (homeOf e) (awayOf e) \<longrightarrow>
                      line = ''<p>Evento: ''
                        @ toString (orElse (member e ''name'') (JStr ''Unnamed Event''))
                        @ '' - Fecha: ''
                        @ (case (if truthy (member e ''date'') then madrid (member e ''date'')
                                 else None) of Some s \<Rightarrow> s | None \<Rightarrow> ''Date N/A'')
                        @ '' - Datos de equipo incompletos</p>''))
             (filter validEvent ?events) lines"
    and run: "processTeamEventsData madrid notANumber schedule
             = Inr (if lines = [] then None else Some (concat lines))"
    by blast
  from n v obtain l1 l2 where l: "lines = [l1, l2]"
    by (auto simp: length_Suc_conv)
  from each i have "processEvent madrid notANumber finishedGame = Inr l1"
    and "l2 = ''<p>Evento: '' @ ''Bye'' @ '' - Fecha: '' @ ''Date N/A''
              @ '' - Datos de competici'' @ [CHR 0xF3] @ ''n incompletos</p>''"
    unfolding v l using bye by simp_all
  with game have \<open>l1 = ''<p>WSH <img src="" alt="WSH logo" style="height: 20px; vertical-align: middle; display:none;"> @ TB <img src="" alt="TB logo" style="height: 20px; vertical-align: middle; display:none;"> | Fecha: 08/09/2024, 22:25 | Estado: 37 - 0</p>''\<close>
    and "l2 = ''<p>Evento: Bye - Fecha: Date N/A - Datos de competici'' @ [CHR 0xF3]
              @ ''n incompletos</p>''"
    by simp_all
  with run l v m show ?thesis
    by simp
qed

end
